theory Spec2Isabelle
  imports Complex_Main "HOL-Library.Log_Nat"
begin

section \<open>Data model\<close>

text \<open>
  The layout code of the grand staff (\<^verbatim>\<open>SvgGrandStaff.tsx\<close>) and of one chord
  (\<^verbatim>\<open>SvgChord.tsx\<close>). A TypeScript \<^verbatim>\<open>number\<close> is an exact rational here: rounding,
  overflow and NaN of IEEE doubles are not represented. Where the source itself produces an
  infinity (the seeds of a minimum or maximum search) the value is a \<open>number\<close>, a rational
  or one of the two infinities. Where rounding decides which branch the source takes (the
  test of the pitch distance in \<^verbatim>\<open>groupBeamGroups\<close>, the sign of the sum in
  \<^verbatim>\<open>getBeamLine\<close>), the section on double arithmetic follows the source with every
  operation rounded to the nearest double.
\<close>

text \<open>\<^verbatim>\<open>Letter\<close> is a string at run time: the source compares it with \<^verbatim>\<open>'C'\<close> and \<^verbatim>\<open>'B'\<close>.\<close>

type_synonym Letter = string

datatype Accidental = FLAT | NATURAL | SHARP

datatype RhythmicValue = WHOLE | HALF | QUARTER | EIGHTH

datatype Clef = TREBLE | BASS

record NoteLabel =
  letter :: Letter
  accidental :: Accidental

text \<open>
  A \<^verbatim>\<open>Note\<close>: the source reads \<^verbatim>\<open>getLabel()\<close>, \<^verbatim>\<open>getOctave()\<close>, \<^verbatim>\<open>pitch\<close> and
  \<^verbatim>\<open>rhythmicValue\<close> of it.
\<close>

record Note =
  getLabel :: NoteLabel
  getOctave :: int
  pitch :: rat
  rhythmicValue :: RhythmicValue

type_synonym LabeledChord = "Note list"

record LabeledMusic =
  trebleClef :: "LabeledChord list"
  bassClef :: "LabeledChord list"

text \<open>Reading element 0 of an empty array and then a property of it throws a TypeError.\<close>

datatype js_error = TypeError

subsection \<open>Numbers with the two infinities\<close>

datatype number = Finite rat | Infinity | NegInfinity

fun number_less :: "number \<Rightarrow> number \<Rightarrow> bool" where
  "number_less (Finite a) (Finite b) = (a < b)"
| "number_less (Finite a) Infinity = True"
| "number_less (Finite a) NegInfinity = False"
| "number_less Infinity b = False"
| "number_less NegInfinity (Finite b) = True"
| "number_less NegInfinity Infinity = True"
| "number_less NegInfinity NegInfinity = False"

definition number_le :: "number \<Rightarrow> number \<Rightarrow> bool" where
  "number_le a b = (a = b \<or> number_less a b)"

fun number_add :: "number \<Rightarrow> rat \<Rightarrow> number" where
  "number_add (Finite a) r = Finite (a + r)"
| "number_add Infinity r = Infinity"
| "number_add NegInfinity r = NegInfinity"

fun number_sub :: "number \<Rightarrow> rat \<Rightarrow> number" where
  "number_sub (Finite a) r = Finite (a - r)"
| "number_sub Infinity r = Infinity"
| "number_sub NegInfinity r = NegInfinity"

text \<open>\<^verbatim>\<open>Math.min(...xs)\<close> and \<^verbatim>\<open>Math.max(...xs)\<close>: the infinities on no argument.\<close>

definition Math_min :: "rat list \<Rightarrow> number" where
  "Math_min xs = fold (\<lambda>x m. if number_less (Finite x) m then Finite x else m) xs Infinity"

definition Math_max :: "rat list \<Rightarrow> number" where
  "Math_max xs = fold (\<lambda>x m. if number_less m (Finite x) then Finite x else m) xs NegInfinity"

section \<open>Helpers of other modules\<close>

text \<open>
  Modelled from the spec: \<^verbatim>\<open>average\<close> of \<^verbatim>\<open>utilities/NumberUtils\<close> is not among the
  sources. The spec calls a chord's average pitch the mean of its notes' pitches. The mean
  of no number (0/0 in the source's arithmetic) is outside this model.
\<close>

definition average :: "rat list \<Rightarrow> rat" where
  "average xs = sum_list xs / of_nat (length xs)"

text \<open>
  Modelled from the spec: \<^verbatim>\<open>averageSlope\<close> of \<^verbatim>\<open>utilities/NumberUtils\<close> is not among
  the sources. The spec calls it the average slope of consecutive average-pitch differences
  across the group: the mean of the differences of neighbours.
\<close>

definition averageSlope :: "rat list \<Rightarrow> rat" where
  "averageSlope xs = average (map (\<lambda>(a, b). b - a) (zip xs (tl xs)))"

text \<open>
  Modelled from the spec: \<^verbatim>\<open>getPositionByNote\<close> of \<^verbatim>\<open>utilities/MusicUtils\<close> is not
  among the sources. The spec's position of a note: the index of the letter in C, D, E, F,
  G, A, B, two less in the bass clef, plus seven per octave beAbove the clef's base octave
  (4 for treble, 2 for bass), with C flat counted one octave higher and B sharp one lower.
\<close>

definition getPositionByNote :: "Note \<Rightarrow> Clef \<Rightarrow> int" where
  "getPositionByNote note clef =
     (let l = letter (getLabel note);
          a = accidental (getLabel note);
          basePosition =
            (if l = ''C'' then 0 else if l = ''D'' then 1 else if l = ''E'' then 2
             else if l = ''F'' then 3 else if l = ''G'' then 4 else if l = ''A'' then 5
             else if l = ''B'' then 6 else - 1)
            + (if clef = BASS then - 2 else 0);
          octaveAdjustment =
            (if l = ''C'' \<and> a = FLAT then 1 else if l = ''B'' \<and> a = SHARP then - 1 else 0);
          baseOctaveForClef = (if clef = BASS then 2 else 4)
      in basePosition + (getOctave note - baseOctaveForClef + octaveAdjustment) * 7)"

text \<open>
  Modelled from the spec: \<^verbatim>\<open>positionToY\<close> of \<^verbatim>\<open>utilities/MusicUtils\<close> is not among the
  sources. The spec's vertical coordinate of a position: five staff-line-heights minus half
  a staff-line-height per position.
\<close>

definition positionToY :: "int \<Rightarrow> rat \<Rightarrow> rat" where
  "positionToY position staffLineHeight =
     5 * staffLineHeight - of_int position * (staffLineHeight / 2)"

text \<open>
  Modelled from the spec: \<^verbatim>\<open>getDisplayedAccidental\<close> of the note label class is not among
  the sources. The spec: a note's accidental is displayed only when it differs from the
  accidental in force for its letter.
\<close>

definition getDisplayedAccidental ::
  "NoteLabel \<Rightarrow> (Letter \<rightharpoonup> Accidental) \<Rightarrow> Accidental option" where
  "getDisplayedAccidental label accidentals =
     (if accidentals (letter label) \<noteq> Some (accidental label)
      then Some (accidental label) else None)"

section \<open>Beam functions\<close>

definition BEAM_SLOPE :: rat where
  "BEAM_SLOPE = 20 / 100"

definition getAveragePitch :: "LabeledChord \<Rightarrow> rat" where
  "getAveragePitch chord = average (map pitch chord)"

definition isEighth :: "LabeledChord \<Rightarrow> js_error + bool" where
  "isEighth chord =
     (case chord of [] \<Rightarrow> Inl TypeError | n # _ \<Rightarrow> Inr (rhythmicValue n = EIGHTH))"

text \<open>One round of the loop of \<^verbatim>\<open>groupBeamGroups\<close>, on the groups made so far.\<close>

definition groupBeamGroups_step ::
  "LabeledChord list list \<Rightarrow> LabeledChord \<Rightarrow> js_error + LabeledChord list list" where
  "groupBeamGroups_step beamGroups labeledChord =
     (if length beamGroups = 0 then Inr (beamGroups @ [[labeledChord]])
      else
        let latestBeamGroup = last beamGroups in
        if length latestBeamGroup = 0
        then Inr (butlast beamGroups @ [latestBeamGroup @ [labeledChord]])
        else if length latestBeamGroup \<ge> 4 then Inr (beamGroups @ [[labeledChord]])
        else
          (case isEighth labeledChord of
             Inl e \<Rightarrow> Inl e
           | Inr thisIsEighth \<Rightarrow>
               if \<not> thisIsEighth then Inr (beamGroups @ [[labeledChord]])
               else
                 (case isEighth (latestBeamGroup ! 0) of
                    Inl e \<Rightarrow> Inl e
                  | Inr firstIsEighth \<Rightarrow>
                      if \<not> firstIsEighth then Inr (beamGroups @ [[labeledChord]])
                      else
                        let currentChordPitch = getAveragePitch labeledChord;
                            pitchDistances =
                              map (\<lambda>chord. \<bar>getAveragePitch chord - currentChordPitch\<bar>)
                                latestBeamGroup;
                            closeEnough = number_le (Math_max pitchDistances) (Finite 12)
                        in if closeEnough
                           then Inr (butlast beamGroups @ [latestBeamGroup @ [labeledChord]])
                           else Inr (beamGroups @ [[labeledChord]]))))"

fun groupBeamGroups_loop ::
  "LabeledChord list \<Rightarrow> LabeledChord list list \<Rightarrow> js_error + LabeledChord list list" where
  "groupBeamGroups_loop [] beamGroups = Inr beamGroups"
| "groupBeamGroups_loop (labeledChord # rest) beamGroups =
     (case groupBeamGroups_step beamGroups labeledChord of
        Inl e \<Rightarrow> Inl e
      | Inr beamGroups' \<Rightarrow> groupBeamGroups_loop rest beamGroups')"

definition groupBeamGroups :: "LabeledChord list \<Rightarrow> js_error + LabeledChord list list" where
  "groupBeamGroups measureChords = groupBeamGroups_loop measureChords []"

record BeamLine =
  isAbove :: bool
  getY :: "rat \<Rightarrow> number"

text \<open>The constants \<^verbatim>\<open>displayedSlope\<close> and \<^verbatim>\<open>shouldBeAbove\<close> of \<^verbatim>\<open>getBeamLine\<close>.\<close>

definition displayedSlope :: "LabeledChord list \<Rightarrow> rat" where
  "displayedSlope beamGroup =
     (let averagePitches = map (\<lambda>chord. average (map pitch chord)) beamGroup;
          actualSlope = averageSlope averagePitches
      in if actualSlope = 0 then 0 else (if actualSlope > 0 then BEAM_SLOPE else - BEAM_SLOPE))"

definition shouldBeAbove :: "LabeledChord list \<Rightarrow> Clef \<Rightarrow> bool" where
  "shouldBeAbove beamGroup clef =
     (let averagePitches = map (\<lambda>chord. average (map pitch chord)) beamGroup;
          middlePitch = (if clef = TREBLE then 71 else 50)
      in 0 > fold (\<lambda>pitch delta. delta + pitch - middlePitch) averagePitches 0)"

text \<open>
  The loop of \<^verbatim>\<open>getBeamLine\<close> over the chords from index \<open>i\<close> on, with the closest y found
  so far.
\<close>

fun closestNoteY_loop ::
  "bool \<Rightarrow> rat \<Rightarrow> rat \<Rightarrow> Clef \<Rightarrow> rat \<Rightarrow> LabeledChord list \<Rightarrow> nat \<Rightarrow> number \<Rightarrow> number" where
  "closestNoteY_loop beAbove slope noteWidth clef staffLineHeight [] i closestNoteY = closestNoteY"
| "closestNoteY_loop beAbove slope noteWidth clef staffLineHeight (chord # rest) i closestNoteY =
     (let chordYVals = map (\<lambda>note. positionToY (getPositionByNote note clef) staffLineHeight) chord;
          closestYVal = (if beAbove then Math_min chordYVals else Math_max chordYVals);
          adjustedChordY = number_sub closestYVal (slope * of_nat i * noteWidth)
      in closestNoteY_loop beAbove slope noteWidth clef staffLineHeight rest (Suc i)
           (if (if beAbove then number_less adjustedChordY closestNoteY
                else number_less closestNoteY adjustedChordY)
            then adjustedChordY else closestNoteY))"

definition getBeamLine ::
  "LabeledChord list \<Rightarrow> Clef \<Rightarrow> rat \<Rightarrow> rat \<Rightarrow> rat \<Rightarrow> BeamLine option" where
  "getBeamLine beamGroup clef startingX noteWidth staffLineHeight =
     (if length beamGroup \<le> 1 then None
      else
        let slope = displayedSlope beamGroup;
            beAbove = shouldBeAbove beamGroup clef;
            closestNoteY =
              closestNoteY_loop beAbove slope noteWidth clef staffLineHeight beamGroup 0
                (if beAbove then Infinity else NegInfinity);
            firstY =
              number_add (number_sub closestNoteY (slope * startingX))
                ((if beAbove then - 2 else 2) * staffLineHeight)
        in Some \<lparr>isAbove = beAbove, getY = (\<lambda>x. number_add firstY (slope * x))\<rparr>)"

section \<open>One chord\<close>

definition NOTE_WIDTH_RATIO :: rat where
  "NOTE_WIDTH_RATIO = 7 / 12"

definition NOTE_HEIGHT_RATIO :: rat where
  "NOTE_HEIGHT_RATIO = 5 / 12"

text \<open>Starting with the ledger line below the staff, the treble clef's letters.\<close>

definition TREBLE_CLEF :: "Letter list" where
  "TREBLE_CLEF = [''C'', ''D'', ''E'', ''F'', ''G'', ''A'', ''B'']"

text \<open>\<^verbatim>\<open>Array.prototype.indexOf\<close>: the first index of the value, or -1.\<close>

fun indexOf :: "'a list \<Rightarrow> 'a \<Rightarrow> int" where
  "indexOf [] v = - 1"
| "indexOf (x # xs) v =
     (if x = v then 0 else (let k = indexOf xs v in if k = - 1 then - 1 else k + 1))"

text \<open>
  What is drawn, with the geometry the source gives it (keys, colours and the rotation of
  the note head are left out).
\<close>

datatype SvgPrimitive =
    Ellipse (cx: rat) (cy: rat) (rx: rat) (ry: rat) (ellipseStrokeWidth: rat) (filled: bool)
  | Line (x1: rat) (x2: rat) (y1: number) (y2: number) (lineStrokeWidth: rat)
  | Text (textX: rat) (textY: rat) (fontSize: rat) (glyph: Accidental)

definition createNoteHead :: "rat \<Rightarrow> rat \<Rightarrow> rat \<Rightarrow> rat \<Rightarrow> Note \<Rightarrow> SvgPrimitive" where
  "createNoteHead x y staffLineHeight strokeWidth note =
     Ellipse x y (NOTE_WIDTH_RATIO * staffLineHeight) (NOTE_HEIGHT_RATIO * staffLineHeight)
       (2 * strokeWidth) (rhythmicValue note \<notin> set [WHOLE, HALF])"

definition createNoteStem :: "rat \<Rightarrow> rat \<Rightarrow> number option \<Rightarrow> rat \<Rightarrow> rat \<Rightarrow> SvgPrimitive" where
  "createNoteStem noteX noteY stemTo staffLineHeight strokeWidth =
     (let pointsDown =
            (case stemTo of
               Some s \<Rightarrow> number_less (Finite noteY) s
             | None \<Rightarrow> (if noteY < 2 * staffLineHeight then True else False));
          stemX = (if pointsDown then noteX - NOTE_WIDTH_RATIO * staffLineHeight
                   else noteX + NOTE_WIDTH_RATIO * staffLineHeight);
          stemY = noteY;
          stemY2 =
            (case stemTo of
               Some s \<Rightarrow> s
             | None \<Rightarrow> Finite (if pointsDown then stemY + 3 * staffLineHeight
                               else stemY - 3 * staffLineHeight))
      in Line stemX stemX (Finite stemY) stemY2 (2 * strokeWidth))"

definition createAccidental :: "rat \<Rightarrow> rat \<Rightarrow> rat \<Rightarrow> Accidental \<Rightarrow> SvgPrimitive" where
  "createAccidental noteX noteY staffLineHeight acc =
     (let budge = (case acc of FLAT \<Rightarrow> - 3 | NATURAL \<Rightarrow> 5 | SHARP \<Rightarrow> 3)
      in Text (noteX - NOTE_WIDTH_RATIO * staffLineHeight - 3) (noteY + budge)
           (2 * staffLineHeight) acc)"

text \<open>The line or gap of a note: the variable \<^verbatim>\<open>basePosition\<close> of \<^verbatim>\<open>getNoteY\<close> at its end.\<close>

definition getNoteY_basePosition :: "Note \<Rightarrow> Clef \<Rightarrow> int" where
  "getNoteY_basePosition labeledNote clef =
     (let baseClefOctave = (if clef = BASS then 2 else 4);
          label = getLabel labeledNote;
          basePosition = indexOf TREBLE_CLEF (letter label) + (if BASS = clef then - 2 else 0);
          octaveAdjustment = 0;
          octaveAdjustment =
            (if letter label = ''C'' \<and> accidental label = FLAT then 1 else octaveAdjustment);
          octaveAdjustment =
            (if letter label = ''B'' \<and> accidental label = SHARP then - 1 else octaveAdjustment)
      in basePosition + ((getOctave labeledNote - baseClefOctave + octaveAdjustment) * 7))"

definition getNoteY :: "Note \<Rightarrow> Clef \<Rightarrow> rat \<Rightarrow> rat" where
  "getNoteY labeledNote clef staffLineHeight =
     (5 * staffLineHeight)
       - (of_int (getNoteY_basePosition labeledNote clef) * staffLineHeight / 2)"

text \<open>The elements of one note of \<^verbatim>\<open>SvgChord\<close>: head, stem unless WHOLE, accidental if displayed.\<close>

definition SvgChord_note ::
  "rat \<Rightarrow> rat \<Rightarrow> rat \<Rightarrow> Clef \<Rightarrow> number option \<Rightarrow> (Letter \<rightharpoonup> Accidental) \<Rightarrow> Note
     \<Rightarrow> SvgPrimitive list" where
  "SvgChord_note x staffLineHeight strokeWidth clef stemTo accidentals labeledNote =
     (let y = getNoteY labeledNote clef staffLineHeight
      in [createNoteHead x y staffLineHeight strokeWidth labeledNote]
         @ (if rhythmicValue labeledNote \<noteq> WHOLE
            then [createNoteStem x y stemTo staffLineHeight strokeWidth] else [])
         @ (case getDisplayedAccidental (getLabel labeledNote) accidentals of
              Some displayedAccidental \<Rightarrow> [createAccidental x y staffLineHeight displayedAccidental]
            | None \<Rightarrow> []))"

definition SvgChord ::
  "rat \<Rightarrow> rat \<Rightarrow> rat \<Rightarrow> LabeledChord \<Rightarrow> Clef \<Rightarrow> number option \<Rightarrow> (Letter \<rightharpoonup> Accidental)
     \<Rightarrow> SvgPrimitive list" where
  "SvgChord x staffLineHeight strokeWidth labeledNoteGroup clef stemTo accidentals =
     concat (map (SvgChord_note x staffLineHeight strokeWidth clef stemTo accidentals)
       labeledNoteGroup)"

section \<open>One clef of one measure\<close>

record SizingData =
  staffHeight :: rat
  staffLineHeight :: rat
  staffThickness :: rat

datatype ReactElement =
    SvgChordElement "SvgPrimitive list"
  | SvgBeamElement SvgPrimitive
  | SvgBarLineElement (barX: rat) (barY: rat) (barHeight: rat) (barStrokeWidth: rat)

definition PADDING_RATIO :: rat where
  "PADDING_RATIO = 20 / 100"

definition STAFF_RATIO :: rat where
  "STAFF_RATIO = 20 / 100"

definition GAP_RATIO :: rat where
  "GAP_RATIO = 20 / 100"

definition BASE_NOTE_GAP_RATIO :: rat where
  "BASE_NOTE_GAP_RATIO = 5 * STAFF_RATIO"

definition createSvgChord ::
  "SizingData \<Rightarrow> LabeledChord \<Rightarrow> rat \<Rightarrow> Clef \<Rightarrow> (Letter \<rightharpoonup> Accidental) \<Rightarrow> number option
     \<Rightarrow> ReactElement" where
  "createSvgChord sizes labeledNoteGroup x clef accidentals stemTo =
     SvgChordElement
       (SvgChord x (staffLineHeight sizes) (staffThickness sizes) labeledNoteGroup clef stemTo
          accidentals)"

definition createSvgBeam :: "SizingData \<Rightarrow> (rat \<Rightarrow> number) \<Rightarrow> rat \<Rightarrow> rat \<Rightarrow> ReactElement" where
  "createSvgBeam sizes beamLine bx1 bx2 =
     SvgBeamElement (Line bx1 bx2 (beamLine bx1) (beamLine bx2) (7 * staffThickness sizes))"

definition getDisplayedAccidentals ::
  "LabeledChord \<Rightarrow> (Letter \<rightharpoonup> Accidental) \<Rightarrow> (Letter \<rightharpoonup> Accidental)" where
  "getDisplayedAccidentals noteGroup accidentals =
     fold (\<lambda>note obj.
             if accidentals (letter (getLabel note)) \<noteq> Some (accidental (getLabel note))
             then obj(letter (getLabel note) \<mapsto> accidental (getLabel note)) else obj)
       noteGroup Map.empty"

text \<open>
  What \<^verbatim>\<open>createClefNotes\<close> changes while it runs: the elements pushed, the x cursor, the
  accidentals in force, and where the beam of the current group stops.
\<close>

record ClefState =
  elementsToDisplay :: "ReactElement list"
  currentX :: rat
  accidentalsInForce :: "Letter \<rightharpoonup> Accidental"
  beamStopX :: rat

text \<open>
  The inner \<^verbatim>\<open>forEach\<close> of \<^verbatim>\<open>createClefNotes\<close>, one chord. \<open>rv\<close> is the number the numeric
  enumeration \<^verbatim>\<open>RhythmicValue\<close> gives each of its members; its declaration is not among the
  sources, so it is a parameter.
\<close>

definition createClefNotes_chord ::
  "(RhythmicValue \<Rightarrow> rat) \<Rightarrow> SizingData \<Rightarrow> Clef \<Rightarrow> BeamLine option \<Rightarrow> ClefState \<Rightarrow> LabeledChord
     \<Rightarrow> js_error + ClefState" where
  "createClefNotes_chord rv sizes clef beamLine st noteGroup =
     (let chord = createSvgChord sizes noteGroup (currentX st) clef (accidentalsInForce st)
                    (case beamLine of Some bl \<Rightarrow> Some (getY bl (currentX st)) | None \<Rightarrow> None)
      in case noteGroup of
           [] \<Rightarrow> Inl TypeError
         | n # _ \<Rightarrow>
             Inr \<lparr>elementsToDisplay = elementsToDisplay st @ [chord],
                  currentX = currentX st + BASE_NOTE_GAP_RATIO * staffHeight sizes * rv (rhythmicValue n),
                  accidentalsInForce =
                    accidentalsInForce st ++ getDisplayedAccidentals noteGroup (accidentalsInForce st),
                  beamStopX = currentX st\<rparr>)"

fun createClefNotes_chords ::
  "(RhythmicValue \<Rightarrow> rat) \<Rightarrow> SizingData \<Rightarrow> Clef \<Rightarrow> BeamLine option \<Rightarrow> LabeledChord list \<Rightarrow> ClefState
     \<Rightarrow> js_error + ClefState" where
  "createClefNotes_chords rv sizes clef beamLine [] st = Inr st"
| "createClefNotes_chords rv sizes clef beamLine (noteGroup # rest) st =
     (case createClefNotes_chord rv sizes clef beamLine st noteGroup of
        Inl e \<Rightarrow> Inl e
      | Inr st' \<Rightarrow> createClefNotes_chords rv sizes clef beamLine rest st')"

text \<open>The outer \<^verbatim>\<open>forEach\<close> of \<^verbatim>\<open>createClefNotes\<close>, one beam group.\<close>

definition createClefNotes_group ::
  "(RhythmicValue \<Rightarrow> rat) \<Rightarrow> SizingData \<Rightarrow> Clef \<Rightarrow> ClefState \<Rightarrow> LabeledChord list
     \<Rightarrow> js_error + ClefState" where
  "createClefNotes_group rv sizes clef st beamGroup =
     (case beamGroup of
        [] \<Rightarrow> Inl TypeError
      | [] # _ \<Rightarrow> Inl TypeError
      | (n # _) # _ \<Rightarrow>
          let beamNoteWidth = BASE_NOTE_GAP_RATIO * staffHeight sizes * rv (rhythmicValue n);
              beamLine = getBeamLine beamGroup clef (currentX st) beamNoteWidth (staffLineHeight sizes);
              beamStartX = currentX st
          in (case createClefNotes_chords rv sizes clef beamLine beamGroup
                     (st\<lparr>beamStopX := currentX st\<rparr>) of
                Inl e \<Rightarrow> Inl e
              | Inr st' \<Rightarrow>
                  (case beamLine of
                     None \<Rightarrow> Inr st'
                   | Some bl \<Rightarrow>
                       let noteHeadWidth = NOTE_WIDTH_RATIO * staffLineHeight sizes;
                           beamStartX' = beamStartX + (if isAbove bl then noteHeadWidth else - noteHeadWidth);
                           beamStopX' = beamStopX st' + (if isAbove bl then noteHeadWidth else - noteHeadWidth)
                       in Inr (st'\<lparr>elementsToDisplay :=
                                     elementsToDisplay st' @ [createSvgBeam sizes (getY bl) beamStartX' beamStopX'],
                                   beamStopX := beamStopX'\<rparr>))))"

fun createClefNotes_groups ::
  "(RhythmicValue \<Rightarrow> rat) \<Rightarrow> SizingData \<Rightarrow> Clef \<Rightarrow> LabeledChord list list \<Rightarrow> ClefState
     \<Rightarrow> js_error + ClefState" where
  "createClefNotes_groups rv sizes clef [] st = Inr st"
| "createClefNotes_groups rv sizes clef (beamGroup # rest) st =
     (case createClefNotes_group rv sizes clef st beamGroup of
        Inl e \<Rightarrow> Inl e
      | Inr st' \<Rightarrow> createClefNotes_groups rv sizes clef rest st')"

text \<open>
  \<^verbatim>\<open>createClefNotes\<close>: the elements displayed after it (the source pushes them on its
  argument) and the x it returns.
\<close>

definition createClefNotes ::
  "(RhythmicValue \<Rightarrow> rat) \<Rightarrow> SizingData \<Rightarrow> Clef \<Rightarrow> LabeledChord list \<Rightarrow> ReactElement list \<Rightarrow> rat
     \<Rightarrow> (Letter \<rightharpoonup> Accidental) \<Rightarrow> js_error + (ReactElement list \<times> rat)" where
  "createClefNotes rv sizes clef measureClef elems startX originalKeyLetters =
     (case groupBeamGroups measureClef of
        Inl e \<Rightarrow> Inl e
      | Inr groups \<Rightarrow>
          (case createClefNotes_groups rv sizes clef groups
                  \<lparr>elementsToDisplay = elems, currentX = startX,
                   accidentalsInForce = originalKeyLetters, beamStopX = startX\<rparr> of
             Inl e \<Rightarrow> Inl e
           | Inr st \<Rightarrow> Inr (elementsToDisplay st, currentX st)))"

section \<open>The grand staff\<close>

text \<open>
  The map of a letter to its accidental in the key, from the labels that
  \<^verbatim>\<open>musicKey.getNoteLabelsInKey()\<close> returns (a label may be missing).
\<close>

definition originalKeyLetters_of :: "NoteLabel option list \<Rightarrow> (Letter \<rightharpoonup> Accidental)" where
  "originalKeyLetters_of labels =
     fold (\<lambda>label obj. case label of Some l \<Rightarrow> obj(letter l \<mapsto> accidental l) | None \<Rightarrow> obj)
       labels Map.empty"

definition sizes_of :: "rat \<Rightarrow> SizingData" where
  "sizes_of height =
     \<lparr>staffHeight = height,
      staffLineHeight = STAFF_RATIO * height / 4,
      staffThickness = 1 / 100 * STAFF_RATIO * height\<rparr>"

text \<open>The variables of \<^verbatim>\<open>GrandStaff\<close> that its loop over the measures changes.\<close>

record StaffState =
  trebleX :: rat
  bassX :: rat
  trebleMusic :: "ReactElement list"
  bassMusic :: "ReactElement list"
  barLines :: "ReactElement list"

definition GrandStaff_measure ::
  "(RhythmicValue \<Rightarrow> rat) \<Rightarrow> rat \<Rightarrow> (Letter \<rightharpoonup> Accidental) \<Rightarrow> StaffState \<Rightarrow> LabeledMusic
     \<Rightarrow> js_error + StaffState" where
  "GrandStaff_measure rv height originalKeyLetters st m =
     (let sizes = sizes_of height in
      case createClefNotes rv sizes TREBLE (trebleClef m) (trebleMusic st) (trebleX st)
             originalKeyLetters of
        Inl e \<Rightarrow> Inl e
      | Inr (trebleMusic', trebleX') \<Rightarrow>
          (case createClefNotes rv sizes BASS (bassClef m) (bassMusic st) (bassX st)
                  originalKeyLetters of
             Inl e \<Rightarrow> Inl e
           | Inr (bassMusic', bassX') \<Rightarrow>
               let barX = max trebleX' bassX'
               in Inr \<lparr>trebleX = barX + 50, bassX = barX + 50,
                       trebleMusic = trebleMusic', bassMusic = bassMusic',
                       barLines = barLines st @
                         [SvgBarLineElement barX (height * PADDING_RATIO)
                            (height * (2 * STAFF_RATIO + GAP_RATIO)) (staffThickness sizes)]\<rparr>))"

fun GrandStaff_measures ::
  "(RhythmicValue \<Rightarrow> rat) \<Rightarrow> rat \<Rightarrow> (Letter \<rightharpoonup> Accidental) \<Rightarrow> LabeledMusic list \<Rightarrow> StaffState
     \<Rightarrow> js_error + StaffState" where
  "GrandStaff_measures rv height originalKeyLetters [] st = Inr st"
| "GrandStaff_measures rv height originalKeyLetters (m # rest) st =
     (case GrandStaff_measure rv height originalKeyLetters st m of
        Inl e \<Rightarrow> Inl e
      | Inr st' \<Rightarrow> GrandStaff_measures rv height originalKeyLetters rest st')"

text \<open>\<^verbatim>\<open>GrandStaff\<close> up to the end of its loop: both cursors start at 40.\<close>

definition GrandStaff ::
  "(RhythmicValue \<Rightarrow> rat) \<Rightarrow> rat \<Rightarrow> NoteLabel option list \<Rightarrow> LabeledMusic list
     \<Rightarrow> js_error + StaffState" where
  "GrandStaff rv height musicKey music =
     GrandStaff_measures rv height (originalKeyLetters_of musicKey) music
       \<lparr>trebleX = 40, bassX = 40, trebleMusic = [], bassMusic = [], barLines = []\<rparr>"

section \<open>Double arithmetic\<close>

text \<open>
  A finite double is a rational k * 2^e with k an integer of at most 53 bits, and every
  arithmetic operation of the source returns the double nearest to the exact result, ties
  to the even k. \<open>fl\<close> is that rounding: the exponent of the leading bit, then the
  quotient by the unit in the last place rounded to an integer. The exponent is not
  bounded here, so overflow and subnormal numbers are not represented (magnitudes from
  2^-1022 up to 2^1024 are: all the numbers below are between 2^-60 and 2^8).
\<close>

definition binaryExponent :: "rat \<Rightarrow> int" where
  "binaryExponent x =
     (let p = fst (quotient_of x); q = snd (quotient_of x); e0 = bitlen p - bitlen q
      in if 2 powi e0 \<le> x then e0 else e0 - 1)"

definition roundTiesToEven :: "rat \<Rightarrow> int" where
  "roundTiesToEven m =
     (let f = \<lfloor>m\<rfloor>; r = m - of_int f
      in if r < 1 / 2 then f else if 1 / 2 < r then f + 1 else if even f then f else f + 1)"

definition fl :: "rat \<Rightarrow> rat" where
  "fl x =
     (if x = 0 then 0
      else let a = \<bar>x\<bar>; ulp = 2 powi (binaryExponent a - 52)
           in sgn x * of_int (roundTiesToEven (a / ulp)) * ulp)"

text \<open>
  Modelled from the spec: \<^verbatim>\<open>average\<close> of \<^verbatim>\<open>utilities/NumberUtils\<close> is not among the
  sources. The mean as double arithmetic computes it: the sum from 0, one addition per
  number, divided by the count.
\<close>

definition average_double :: "rat list \<Rightarrow> rat" where
  "average_double xs = fl (fold (\<lambda>x s. fl (s + x)) xs 0 / of_nat (length xs))"

definition getAveragePitch_double :: "LabeledChord \<Rightarrow> rat" where
  "getAveragePitch_double chord = average_double (map pitch chord)"

text \<open>
  \<^verbatim>\<open>groupBeamGroups\<close> in double arithmetic: as above, with the average pitches and their
  difference rounded (the absolute value, the maximum and the comparison with 12 are
  exact on doubles).
\<close>

definition groupBeamGroups_step_double ::
  "LabeledChord list list \<Rightarrow> LabeledChord \<Rightarrow> js_error + LabeledChord list list" where
  "groupBeamGroups_step_double beamGroups labeledChord =
     (if length beamGroups = 0 then Inr (beamGroups @ [[labeledChord]])
      else
        let latestBeamGroup = last beamGroups in
        if length latestBeamGroup = 0
        then Inr (butlast beamGroups @ [latestBeamGroup @ [labeledChord]])
        else if length latestBeamGroup \<ge> 4 then Inr (beamGroups @ [[labeledChord]])
        else
          (case isEighth labeledChord of
             Inl e \<Rightarrow> Inl e
           | Inr thisIsEighth \<Rightarrow>
               if \<not> thisIsEighth then Inr (beamGroups @ [[labeledChord]])
               else
                 (case isEighth (latestBeamGroup ! 0) of
                    Inl e \<Rightarrow> Inl e
                  | Inr firstIsEighth \<Rightarrow>
                      if \<not> firstIsEighth then Inr (beamGroups @ [[labeledChord]])
                      else
                        let currentChordPitch = getAveragePitch_double labeledChord;
                            pitchDistances =
                              map (\<lambda>chord. \<bar>fl (getAveragePitch_double chord - currentChordPitch)\<bar>)
                                latestBeamGroup;
                            closeEnough = number_le (Math_max pitchDistances) (Finite 12)
                        in if closeEnough
                           then Inr (butlast beamGroups @ [latestBeamGroup @ [labeledChord]])
                           else Inr (beamGroups @ [[labeledChord]]))))"

fun groupBeamGroups_loop_double ::
  "LabeledChord list \<Rightarrow> LabeledChord list list \<Rightarrow> js_error + LabeledChord list list" where
  "groupBeamGroups_loop_double [] beamGroups = Inr beamGroups"
| "groupBeamGroups_loop_double (labeledChord # rest) beamGroups =
     (case groupBeamGroups_step_double beamGroups labeledChord of
        Inl e \<Rightarrow> Inl e
      | Inr beamGroups' \<Rightarrow> groupBeamGroups_loop_double rest beamGroups')"

definition groupBeamGroups_double :: "LabeledChord list \<Rightarrow> js_error + LabeledChord list list" where
  "groupBeamGroups_double measureChords = groupBeamGroups_loop_double measureChords []"

text \<open>
  The sum that \<^verbatim>\<open>getBeamLine\<close> reduces to decide the side of the beam, and its constant
  \<^verbatim>\<open>shouldBeAbove\<close> (the \<^verbatim>\<open>isAbove\<close> of the line it returns), in double arithmetic:
  \<^verbatim>\<open>delta + pitch - middlePitch\<close> is two operations, each rounded.
\<close>

definition middlePitchDelta_double :: "LabeledChord list \<Rightarrow> Clef \<Rightarrow> rat" where
  "middlePitchDelta_double beamGroup clef =
     (let averagePitches = map (\<lambda>chord. average_double (map pitch chord)) beamGroup;
          middlePitch = (if clef = TREBLE then 71 else 50)
      in fold (\<lambda>pitch delta. fl (fl (delta + pitch) - middlePitch)) averagePitches 0)"

definition shouldBeAbove_double :: "LabeledChord list \<Rightarrow> Clef \<Rightarrow> bool" where
  "shouldBeAbove_double beamGroup clef = (0 > middlePitchDelta_double beamGroup clef)"

section \<open>Vocabulary of the proofs\<close>

text \<open>
  When a round of \<^verbatim>\<open>groupBeamGroups\<close> pushes the chord on the latest group rather than
  starting a group.
\<close>

definition appended :: "LabeledChord list list \<Rightarrow> LabeledChord \<Rightarrow> bool" where
  "appended bg c = (bg \<noteq> [] \<and> (last bg = [] \<or>
      (length (last bg) < 4 \<and> isEighth c = Inr True \<and> isEighth (last bg ! 0) = Inr True \<and>
       (\<forall>d\<in>set (last bg). \<bar>getAveragePitch d - getAveragePitch c\<bar> \<le> 12))))"

text \<open>What every group made by \<^verbatim>\<open>groupBeamGroups\<close> satisfies.\<close>

definition beamGroup_inv :: "LabeledChord list \<Rightarrow> bool" where
  "beamGroup_inv g =
     (g \<noteq> [] \<and> length g \<le> 4 \<and>
      (1 < length g \<longrightarrow> (\<forall>c\<in>set g. isEighth c = Inr True)) \<and>
      (\<forall>j<length g. \<forall>i<j. \<bar>getAveragePitch (g ! i) - getAveragePitch (g ! j)\<bar> \<le> 12))"

text \<open>A note written out, for the examples.\<close>

definition exampleNote :: "Letter \<Rightarrow> Accidental \<Rightarrow> int \<Rightarrow> rat \<Rightarrow> RhythmicValue \<Rightarrow> Note" where
  "exampleNote l a oct p r =
     \<lparr>getLabel = \<lparr>letter = l, accidental = a\<rparr>, getOctave = oct, pitch = p, rhythmicValue = r\<rparr>"

text \<open>The accidentals among the primitives of a chord, in the order drawn.\<close>

fun glyphs :: "SvgPrimitive list \<Rightarrow> Accidental list" where
  "glyphs [] = []"
| "glyphs (Text x y f a # ps) = a # glyphs ps"
| "glyphs (Ellipse a b c d e f # ps) = glyphs ps"
| "glyphs (Line a b c d e # ps) = glyphs ps"

text \<open>The accidentals drawn with each chord among the elements displayed, chord by chord.\<close>

fun chordGlyphs :: "ReactElement list \<Rightarrow> Accidental list list" where
  "chordGlyphs [] = []"
| "chordGlyphs (SvgChordElement ps # es) = glyphs ps # chordGlyphs es"
| "chordGlyphs (SvgBeamElement p # es) = chordGlyphs es"
| "chordGlyphs (SvgBarLineElement a b c d # es) = chordGlyphs es"

text \<open>
  The accidentals a chord shows against a state of the accidentals in force, the lists shown
  by a sequence of chords from a starting state, and the state after the sequence.
\<close>

definition displayedIn :: "(Letter \<rightharpoonup> Accidental) \<Rightarrow> LabeledChord \<Rightarrow> Accidental list" where
  "displayedIn acc noteGroup =
     concat (map (\<lambda>note. if acc (letter (getLabel note)) \<noteq> Some (accidental (getLabel note))
                          then [accidental (getLabel note)] else []) noteGroup)"

fun trackAccidentals :: "(Letter \<rightharpoonup> Accidental) \<Rightarrow> LabeledChord list \<Rightarrow> Accidental list list" where
  "trackAccidentals acc [] = []"
| "trackAccidentals acc (c # cs) =
     displayedIn acc c # trackAccidentals (acc ++ getDisplayedAccidentals c acc) cs"

fun accidentalsAfter :: "(Letter \<rightharpoonup> Accidental) \<Rightarrow> LabeledChord list \<Rightarrow> (Letter \<rightharpoonup> Accidental)" where
  "accidentalsAfter acc [] = acc"
| "accidentalsAfter acc (c # cs) = accidentalsAfter (acc ++ getDisplayedAccidentals c acc) cs"

text \<open>Numbers for the rhythmic values and a key with F sharp, for the examples.\<close>

definition exampleRhythmicValue :: "RhythmicValue \<Rightarrow> rat" where
  "exampleRhythmicValue r = (case r of WHOLE \<Rightarrow> 1 | HALF \<Rightarrow> 1 / 2 | QUARTER \<Rightarrow> 1 / 4 | EIGHTH \<Rightarrow> 1 / 8)"

definition exampleKey :: "NoteLabel option list" where
  "exampleKey =
     [Some \<lparr>letter = ''G'', accidental = NATURAL\<rparr>, Some \<lparr>letter = ''A'', accidental = NATURAL\<rparr>,
      Some \<lparr>letter = ''B'', accidental = NATURAL\<rparr>, Some \<lparr>letter = ''C'', accidental = NATURAL\<rparr>,
      Some \<lparr>letter = ''D'', accidental = NATURAL\<rparr>, Some \<lparr>letter = ''E'', accidental = NATURAL\<rparr>,
      Some \<lparr>letter = ''F'', accidental = SHARP\<rparr>]"

text \<open>
  Triads of EIGHTH notes for the examples: C major at octaves 4 and 5, B diminished and
  C minor.
\<close>

definition exampleCMajor4 :: LabeledChord where
  "exampleCMajor4 =
     [exampleNote ''C'' NATURAL 4 60 EIGHTH, exampleNote ''E'' NATURAL 4 64 EIGHTH,
      exampleNote ''G'' NATURAL 4 67 EIGHTH]"

definition exampleCMajor5 :: LabeledChord where
  "exampleCMajor5 =
     [exampleNote ''C'' NATURAL 5 72 EIGHTH, exampleNote ''E'' NATURAL 5 76 EIGHTH,
      exampleNote ''G'' NATURAL 5 79 EIGHTH]"

definition exampleBDiminished4 :: LabeledChord where
  "exampleBDiminished4 =
     [exampleNote ''B'' NATURAL 4 71 EIGHTH, exampleNote ''D'' NATURAL 5 74 EIGHTH,
      exampleNote ''F'' NATURAL 5 77 EIGHTH]"

definition exampleCMinor5 :: LabeledChord where
  "exampleCMinor5 =
     [exampleNote ''C'' NATURAL 5 72 EIGHTH, exampleNote ''E'' FLAT 5 75 EIGHTH,
      exampleNote ''G'' NATURAL 5 79 EIGHTH]"

section \<open>The beam grouper\<close>

lemma number_le_Finite [simp]: "number_le (Finite a) (Finite b) = (a \<le> b)"
  by (auto simp: number_le_def)

lemma number_le_simps [simp]:
  "number_le NegInfinity (Finite b) = True"
  "number_le Infinity (Finite b) = False"
  by (simp_all add: number_le_def)

lemma Math_max_fold_le:
  "number_le (fold (\<lambda>x m. if number_less m (Finite x) then Finite x else m) xs m0) (Finite b)
     = (number_le m0 (Finite b) \<and> (\<forall>x\<in>set xs. x \<le> b))"
proof (induction xs arbitrary: m0)
  case Nil
  then show ?case by simp
next
  case (Cons x xs)
  show ?case
    by (cases m0) (auto simp: Cons.IH)
qed

lemma Math_max_le: "number_le (Math_max xs) (Finite b) = (\<forall>x\<in>set xs. x \<le> b)"
  by (simp add: Math_max_def Math_max_fold_le)

lemma groupBeamGroups_step_Inr:
  assumes "groupBeamGroups_step bg c = Inr bg'"
  shows "bg' = bg @ [[c]] \<or> (appended bg c \<and> bg' = butlast bg @ [last bg @ [c]])"
  using assms
  by (auto simp: groupBeamGroups_step_def Let_def Math_max_le appended_def
      split: if_splits sum.splits)


lemma beamGroup_inv_single: "beamGroup_inv [c]"
  by (simp add: beamGroup_inv_def)

lemma beamGroup_inv_snoc:
  assumes inv: "beamGroup_inv g"
    and len: "length g < 4"
    and ec: "isEighth c = Inr True"
    and e0: "isEighth (g ! 0) = Inr True"
    and close: "\<forall>d\<in>set g. \<bar>getAveragePitch d - getAveragePitch c\<bar> \<le> 12"
  shows "beamGroup_inv (g @ [c])"
proof -
  from inv have ne: "g \<noteq> []" by (simp add: beamGroup_inv_def)
  have eighth: "\<forall>d\<in>set g. isEighth d = Inr True"
  proof (cases "1 < length g")
    case True
    with inv show ?thesis by (simp add: beamGroup_inv_def)
  next
    case False
    with ne have "length g = 1" by (cases g) auto
    then obtain d where "g = [d]" by (cases g) auto
    with e0 show ?thesis by simp
  qed
  have pair: "\<bar>getAveragePitch ((g @ [c]) ! i) - getAveragePitch ((g @ [c]) ! j)\<bar> \<le> 12"
    if "j < length (g @ [c])" "i < j" for i j
  proof (cases "j < length g")
    case True
    with that inv show ?thesis by (simp add: beamGroup_inv_def nth_append)
  next
    case False
    with that have j: "j = length g" by simp
    with that have "g ! i \<in> set g" by simp
    with close have "\<bar>getAveragePitch (g ! i) - getAveragePitch c\<bar> \<le> 12" by blast
    with j that show ?thesis by (simp add: nth_append)
  qed
  show ?thesis
    unfolding beamGroup_inv_def
    using len ec eighth pair by auto
qed

lemma groupBeamGroups_step_inv:
  assumes "groupBeamGroups_step bg c = Inr bg'" and "\<forall>g\<in>set bg. beamGroup_inv g"
  shows "\<forall>g\<in>set bg'. beamGroup_inv g"
proof -
  from groupBeamGroups_step_Inr [OF assms(1)]
  consider "bg' = bg @ [[c]]" | "appended bg c" "bg' = butlast bg @ [last bg @ [c]]" by blast
  then show ?thesis
  proof cases
    case 1
    with assms(2) show ?thesis by (simp add: beamGroup_inv_single)
  next
    case 2
    from 2(1) have ne: "bg \<noteq> []" by (simp add: appended_def)
    then have l: "last bg \<in> set bg" by simp
    with assms(2) have li: "beamGroup_inv (last bg)" by blast
    then have "last bg \<noteq> []" by (simp add: beamGroup_inv_def)
    with 2(1) li have "beamGroup_inv (last bg @ [c])"
      by (intro beamGroup_inv_snoc) (auto simp: appended_def)
    moreover have "\<forall>g\<in>set (butlast bg). beamGroup_inv g"
      using assms(2) by (meson in_set_butlastD)
    ultimately show ?thesis using 2(2) by auto
  qed
qed

lemma groupBeamGroups_step_concat:
  assumes "groupBeamGroups_step bg c = Inr bg'"
  shows "concat bg' = concat bg @ [c]"
proof -
  from groupBeamGroups_step_Inr [OF assms]
  consider "bg' = bg @ [[c]]" | "appended bg c" "bg' = butlast bg @ [last bg @ [c]]" by blast
  then show ?thesis
  proof cases
    case 1
    then show ?thesis by simp
  next
    case 2
    from 2(1) have "bg \<noteq> []" by (simp add: appended_def)
    then have "bg = butlast bg @ [last bg]" by simp
    then have "concat bg = concat (butlast bg) @ last bg"
      by (metis concat.simps concat_append append_Nil2)
    with 2(2) show ?thesis by simp
  qed
qed

lemma isEighth_nonempty: "c \<noteq> [] \<Longrightarrow> \<exists>b. isEighth c = Inr b"
  by (cases c) (simp_all add: isEighth_def)

lemma groupBeamGroups_step_total:
  assumes "c \<noteq> []" and "[] \<notin> set (concat bg)"
  shows "\<exists>bg'. groupBeamGroups_step bg c = Inr bg'"
proof (cases "bg = [] \<or> last bg = []")
  case True
  then show ?thesis by (auto simp: groupBeamGroups_step_def Let_def)
next
  case False
  then have "last bg \<in> set bg" "last bg ! 0 \<in> set (last bg)" by auto
  with assms(2) have "last bg ! 0 \<noteq> []" by auto
  with assms(1) isEighth_nonempty obtain b1 b2
    where "isEighth c = Inr b1" "isEighth (last bg ! 0) = Inr b2"
    by blast
  then show ?thesis by (auto simp: groupBeamGroups_step_def Let_def)
qed

lemma groupBeamGroups_loop_inv:
  "groupBeamGroups_loop cs bg = Inr gs \<Longrightarrow> \<forall>g\<in>set bg. beamGroup_inv g \<Longrightarrow>
     (\<forall>g\<in>set gs. beamGroup_inv g) \<and> concat gs = concat bg @ cs"
proof (induction cs arbitrary: bg)
  case Nil
  then show ?case by simp
next
  case (Cons c cs)
  from Cons.prems(1) obtain bg' where s: "groupBeamGroups_step bg c = Inr bg'"
    and l: "groupBeamGroups_loop cs bg' = Inr gs"
    by (auto split: sum.splits)
  from groupBeamGroups_step_inv [OF s Cons.prems(2)] Cons.IH [OF l]
  have "(\<forall>g\<in>set gs. beamGroup_inv g) \<and> concat gs = concat bg' @ cs" by blast
  with groupBeamGroups_step_concat [OF s] show ?case by simp
qed

lemma groupBeamGroups_loop_total:
  "[] \<notin> set cs \<Longrightarrow> [] \<notin> set (concat bg) \<Longrightarrow> \<exists>gs. groupBeamGroups_loop cs bg = Inr gs"
proof (induction cs arbitrary: bg)
  case Nil
  then show ?case by simp
next
  case (Cons c cs)
  from Cons.prems have c: "c \<noteq> []" by auto
  from groupBeamGroups_step_total [OF c Cons.prems(2)]
  obtain bg' where s: "groupBeamGroups_step bg c = Inr bg'" by blast
  from groupBeamGroups_step_concat [OF s] c Cons.prems(2)
  have "[] \<notin> set (concat bg')" by simp
  with Cons.IH [of bg'] Cons.prems(1)
  obtain gs where "groupBeamGroups_loop cs bg' = Inr gs" by auto
  with s show ?case by simp
qed

lemma groupBeamGroups_inv:
  assumes "groupBeamGroups cs = Inr gs"
  shows "(\<forall>g\<in>set gs. beamGroup_inv g) \<and> concat gs = cs"
  using groupBeamGroups_loop_inv [of cs "[]" gs] assms by (simp add: groupBeamGroups_def)

lemma groupBeamGroups_total:
  assumes "[] \<notin> set cs"
  shows "\<exists>gs. groupBeamGroups cs = Inr gs"
  using groupBeamGroups_loop_total [of cs "[]"] assms by (simp add: groupBeamGroups_def)

lemma getBeamLine_single: "length g \<le> 1 \<Longrightarrow> getBeamLine g clef startingX noteWidth slh = None"
  by (simp add: getBeamLine_def)

lemma groupBeamGroups_three:
  assumes "isEighth c1 = Inr True" "isEighth c2 = Inr True" "isEighth c3 = Inr True"
    and "getAveragePitch c1 = 60" "getAveragePitch c2 = 80" "getAveragePitch c3 = 61"
  shows "groupBeamGroups [c1, c2, c3] = Inr [[c1], [c2], [c3]]"
  using assms
  by (simp add: groupBeamGroups_def groupBeamGroups_step_def Math_max_le)


text \<open>
  C10: the groups that \<^verbatim>\<open>groupBeamGroups\<close> returns, concatenated in order, are the input
  list (same chords, same order, none dropped or duplicated), and no group is empty; it
  returns groups whenever no chord of the input is empty (the first note of an empty chord
  cannot be read); the empty list yields no group.
\<close>

theorem C10_groupBeamGroups_partition:
  "(\<forall>groups. groupBeamGroups measureChords = Inr groups \<longrightarrow>
      concat groups = measureChords \<and> [] \<notin> set groups) \<and>
   ([] \<notin> set measureChords \<longrightarrow> (\<exists>groups. groupBeamGroups measureChords = Inr groups)) \<and>
   groupBeamGroups [] = Inr []"
proof (intro conjI allI impI)
  fix groups
  assume r: "groupBeamGroups measureChords = Inr groups"
  from groupBeamGroups_inv [OF r] show "concat groups = measureChords" by simp
  from groupBeamGroups_inv [OF r] show "[] \<notin> set groups"
    by (auto simp: beamGroup_inv_def)
next
  assume "[] \<notin> set measureChords"
  then show "\<exists>groups. groupBeamGroups measureChords = Inr groups"
    by (rule groupBeamGroups_total)
next
  show "groupBeamGroups [] = Inr []" by (simp add: groupBeamGroups_def)
qed

theorem C10_groupBeamGroups_partition_witness:
  "[] \<notin> set [[exampleNote ''C'' NATURAL 4 60 EIGHTH, exampleNote ''E'' NATURAL 4 64 EIGHTH],
               [exampleNote ''D'' NATURAL 4 62 EIGHTH],
               [exampleNote ''C'' NATURAL 4 60 QUARTER]] \<and>
   groupBeamGroups [[exampleNote ''C'' NATURAL 4 60 EIGHTH, exampleNote ''E'' NATURAL 4 64 EIGHTH],
                    [exampleNote ''D'' NATURAL 4 62 EIGHTH],
                    [exampleNote ''C'' NATURAL 4 60 QUARTER]]
     = Inr [[[exampleNote ''C'' NATURAL 4 60 EIGHTH, exampleNote ''E'' NATURAL 4 64 EIGHTH],
             [exampleNote ''D'' NATURAL 4 62 EIGHTH]],
            [[exampleNote ''C'' NATURAL 4 60 QUARTER]]] \<and>
   concat [[[exampleNote ''C'' NATURAL 4 60 EIGHTH, exampleNote ''E'' NATURAL 4 64 EIGHTH],
            [exampleNote ''D'' NATURAL 4 62 EIGHTH]],
           [[exampleNote ''C'' NATURAL 4 60 QUARTER]]]
     = [[exampleNote ''C'' NATURAL 4 60 EIGHTH, exampleNote ''E'' NATURAL 4 64 EIGHTH],
        [exampleNote ''D'' NATURAL 4 62 EIGHTH],
        [exampleNote ''C'' NATURAL 4 60 QUARTER]]"
  (is "?ne \<and> ?run \<and> ?cat")
proof -
  have run: ?run by code_simp
  have ne: ?ne by simp
  from C10_groupBeamGroups_partition
    [of "[[exampleNote ''C'' NATURAL 4 60 EIGHTH, exampleNote ''E'' NATURAL 4 64 EIGHTH],
          [exampleNote ''D'' NATURAL 4 62 EIGHTH],
          [exampleNote ''C'' NATURAL 4 60 QUARTER]]"] run
  have ?cat by blast
  with run ne show ?thesis by blast
qed

text \<open>
  The shape of the groups: every group that \<^verbatim>\<open>groupBeamGroups\<close> returns has 1 to 4
  chords; in a group of more than one chord every chord is an EIGHTH chord (\<^verbatim>\<open>isEighth\<close>:
  its first note's rhythmic value is EIGHTH); and \<^verbatim>\<open>getBeamLine\<close> returns no beam line
  for a group of one chord.
\<close>

lemma groupBeamGroups_group_shape:
  assumes "groupBeamGroups measureChords = Inr groups" and "g \<in> set groups"
  shows "1 \<le> length g" and "length g \<le> 4"
    and "1 < length g \<Longrightarrow> chord \<in> set g \<Longrightarrow> isEighth chord = Inr True"
    and "length g = 1 \<Longrightarrow> getBeamLine g clef startingX noteWidth slh = None"
proof -
  from groupBeamGroups_inv [OF assms(1)] assms(2) have inv: "beamGroup_inv g" by blast
  then show "1 \<le> length g" by (cases g) (simp_all add: beamGroup_inv_def)
  from inv show "length g \<le> 4" by (simp add: beamGroup_inv_def)
  from inv show "1 < length g \<Longrightarrow> chord \<in> set g \<Longrightarrow> isEighth chord = Inr True"
    by (simp add: beamGroup_inv_def)
  show "length g = 1 \<Longrightarrow> getBeamLine g clef startingX noteWidth slh = None"
    by (simp add: getBeamLine_single)
qed

text \<open>
  C7: a round of \<^verbatim>\<open>groupBeamGroups\<close> pushes the chord on the latest group only if its
  average pitch is within 12 semitones of the average pitch of every chord already in that
  group, so in every returned group any two chords are within 12 semitones; and three EIGHTH
  chords with average pitches 60, 80 and 61 give three groups of one chord each.
\<close>

theorem C7_pitch_distance:
  "(groupBeamGroups_step beamGroups labeledChord = Inr (butlast beamGroups @ [last beamGroups @ [labeledChord]])
      \<and> beamGroups \<noteq> [] \<and> last beamGroups \<noteq> [] \<longrightarrow>
      (\<forall>chord\<in>set (last beamGroups).
         \<bar>getAveragePitch chord - getAveragePitch labeledChord\<bar> \<le> 12)) \<and>
   (\<forall>groups. groupBeamGroups measureChords = Inr groups \<longrightarrow>
      (\<forall>g\<in>set groups. \<forall>j<length g. \<forall>i<j.
         \<bar>getAveragePitch (g ! i) - getAveragePitch (g ! j)\<bar> \<le> 12)) \<and>
   (isEighth c1 = Inr True \<and> isEighth c2 = Inr True \<and> isEighth c3 = Inr True \<and>
    getAveragePitch c1 = 60 \<and> getAveragePitch c2 = 80 \<and> getAveragePitch c3 = 61 \<longrightarrow>
    groupBeamGroups [c1, c2, c3] = Inr [[c1], [c2], [c3]])"
proof (intro conjI allI impI ballI)
  fix chord
  assume a: "groupBeamGroups_step beamGroups labeledChord
               = Inr (butlast beamGroups @ [last beamGroups @ [labeledChord]])
             \<and> beamGroups \<noteq> [] \<and> last beamGroups \<noteq> []"
    and c: "chord \<in> set (last beamGroups)"
  from a have "length (butlast beamGroups @ [last beamGroups @ [labeledChord]])
                 \<noteq> length (beamGroups @ [[labeledChord]])"
    by simp
  then have "butlast beamGroups @ [last beamGroups @ [labeledChord]] \<noteq> beamGroups @ [[labeledChord]]"
    by metis
  with groupBeamGroups_step_Inr [of beamGroups labeledChord] a
  have "appended beamGroups labeledChord" by blast
  with a c show "\<bar>getAveragePitch chord - getAveragePitch labeledChord\<bar> \<le> 12"
    by (simp add: appended_def)
next
  fix groups g j i
  assume r: "groupBeamGroups measureChords = Inr groups" and g: "g \<in> set groups"
    and "j < length g" "i < j"
  with groupBeamGroups_inv [OF r]
  show "\<bar>getAveragePitch (g ! i) - getAveragePitch (g ! j)\<bar> \<le> 12"
    by (simp add: beamGroup_inv_def)
next
  assume "isEighth c1 = Inr True \<and> isEighth c2 = Inr True \<and> isEighth c3 = Inr True \<and>
    getAveragePitch c1 = 60 \<and> getAveragePitch c2 = 80 \<and> getAveragePitch c3 = 61"
  then show "groupBeamGroups [c1, c2, c3] = Inr [[c1], [c2], [c3]]"
    using groupBeamGroups_three by blast
qed

theorem C7_pitch_distance_witness:
  "isEighth [exampleNote ''C'' NATURAL 4 60 EIGHTH] = Inr True \<and>
   isEighth [exampleNote ''G'' SHARP 5 80 EIGHTH] = Inr True \<and>
   isEighth [exampleNote ''C'' SHARP 4 61 EIGHTH] = Inr True \<and>
   getAveragePitch [exampleNote ''C'' NATURAL 4 60 EIGHTH] = 60 \<and>
   getAveragePitch [exampleNote ''G'' SHARP 5 80 EIGHTH] = 80 \<and>
   getAveragePitch [exampleNote ''C'' SHARP 4 61 EIGHTH] = 61 \<and>
   groupBeamGroups [[exampleNote ''C'' NATURAL 4 60 EIGHTH], [exampleNote ''G'' SHARP 5 80 EIGHTH],
                    [exampleNote ''C'' SHARP 4 61 EIGHTH]]
     = Inr [[[exampleNote ''C'' NATURAL 4 60 EIGHTH]], [[exampleNote ''G'' SHARP 5 80 EIGHTH]],
            [[exampleNote ''C'' SHARP 4 61 EIGHTH]]] \<and>
   groupBeamGroups_step [[[exampleNote ''C'' NATURAL 4 60 EIGHTH]]] [exampleNote ''E'' NATURAL 4 64 EIGHTH]
     = Inr [[[exampleNote ''C'' NATURAL 4 60 EIGHTH], [exampleNote ''E'' NATURAL 4 64 EIGHTH]]] \<and>
   \<bar>getAveragePitch [exampleNote ''C'' NATURAL 4 60 EIGHTH]
      - getAveragePitch [exampleNote ''E'' NATURAL 4 64 EIGHTH]\<bar> \<le> 12"
  (is "?e1 \<and> ?e2 \<and> ?e3 \<and> ?a1 \<and> ?a2 \<and> ?a3 \<and> ?run \<and> ?step \<and> ?close")
proof -
  have pre: "?e1 \<and> ?e2 \<and> ?e3 \<and> ?a1 \<and> ?a2 \<and> ?a3"
    by (simp add: isEighth_def getAveragePitch_def average_def exampleNote_def)
  have step: ?step by code_simp
  note inst = C7_pitch_distance
    [of "[[[exampleNote ''C'' NATURAL 4 60 EIGHTH]]]" "[exampleNote ''E'' NATURAL 4 64 EIGHTH]"
        "[]" "[exampleNote ''C'' NATURAL 4 60 EIGHTH]" "[exampleNote ''G'' SHARP 5 80 EIGHTH]"
        "[exampleNote ''C'' SHARP 4 61 EIGHTH]"]
  from inst pre have run: ?run by blast
  from inst step have close: ?close by simp
  from pre run step close show ?thesis by blast
qed

section \<open>The beam line\<close>

lemma fold_min_Finite:
  "fold (\<lambda>x m. if number_less (Finite x) m then Finite x else m) xs (Finite a)
     = Finite (Min (insert a (set xs)))"
proof (induction xs arbitrary: a)
  case Nil
  then show ?case by simp
next
  case (Cons x xs)
  have m: "Min (insert a (insert x (set xs))) = min a (Min (insert x (set xs)))"
    by simp
  have le: "Min (insert x (set xs)) \<le> x" by simp
  show ?case
  proof (cases "x < a")
    case True
    from le True have "Min (insert x (set xs)) \<le> a" by linarith
    then have "min a (Min (insert x (set xs))) = Min (insert x (set xs))"
      by (rule min.absorb2)
    with True m show ?thesis by (simp add: Cons.IH)
  next
    case False
    then have "Min (insert a (insert x (set xs))) = Min (insert a (set xs))"
      by (cases "set xs = {}") (simp_all add: min.absorb1 min.assoc [symmetric])
    with False show ?thesis by (simp add: Cons.IH)
  qed
qed

lemma fold_min_Infinity:
  "xs \<noteq> [] \<Longrightarrow>
   fold (\<lambda>x m. if number_less (Finite x) m then Finite x else m) xs Infinity
     = Finite (Min (set xs))"
  by (cases xs) (simp_all add: fold_min_Finite)

lemma fold_max_Finite:
  "fold (\<lambda>x m. if number_less m (Finite x) then Finite x else m) xs (Finite a)
     = Finite (Max (insert a (set xs)))"
proof (induction xs arbitrary: a)
  case Nil
  then show ?case by simp
next
  case (Cons x xs)
  have m: "Max (insert a (insert x (set xs))) = max a (Max (insert x (set xs)))"
    by simp
  have le: "x \<le> Max (insert x (set xs))" by simp
  show ?case
  proof (cases "a < x")
    case True
    from le True have "a \<le> Max (insert x (set xs))" by linarith
    then have "max a (Max (insert x (set xs))) = Max (insert x (set xs))"
      by (rule max.absorb2)
    with True m show ?thesis by (simp add: Cons.IH)
  next
    case False
    then have "Max (insert a (insert x (set xs))) = Max (insert a (set xs))"
      by (cases "set xs = {}") (simp_all add: max.absorb1 max.assoc [symmetric])
    with False show ?thesis by (simp add: Cons.IH)
  qed
qed

lemma fold_max_NegInfinity:
  "xs \<noteq> [] \<Longrightarrow>
   fold (\<lambda>x m. if number_less m (Finite x) then Finite x else m) xs NegInfinity
     = Finite (Max (set xs))"
  by (cases xs) (simp_all add: fold_max_Finite)

lemma Math_min_nonempty: "xs \<noteq> [] \<Longrightarrow> Math_min xs = Finite (Min (set xs))"
  by (simp add: Math_min_def fold_min_Infinity)

lemma Math_max_nonempty: "xs \<noteq> [] \<Longrightarrow> Math_max xs = Finite (Max (set xs))"
  by (simp add: Math_max_def fold_max_NegInfinity)


lemma closestNoteY_loop_above:
  assumes "[] \<notin> set chords"
  shows "closestNoteY_loop True s nw clef slh chords i acc
     = fold (\<lambda>x m. if number_less (Finite x) m then Finite x else m)
         (map (\<lambda>(k, chord).
                 Min ((\<lambda>note. positionToY (getPositionByNote note clef) slh) ` set chord)
                   - s * of_nat k * nw)
            (zip [i..<i + length chords] chords)) acc"
  using assms
proof (induction chords arbitrary: i acc)
  case Nil
  then show ?case by simp
next
  case (Cons c cs)
  from Cons.prems have c: "c \<noteq> []" and cs: "[] \<notin> set cs" by auto
  have z: "zip [i..<i + length (c # cs)] (c # cs) = (i, c) # zip [Suc i..<Suc i + length cs] cs"
    by (simp add: upt_conv_Cons del: upt_Suc)
  from c have m: "Math_min (map (\<lambda>note. positionToY (getPositionByNote note clef) slh) c)
      = Finite (Min ((\<lambda>note. positionToY (getPositionByNote note clef) slh) ` set c))"
    by (simp add: Math_min_nonempty)
  show ?case
    unfolding z by (simp add: m Cons.IH [OF cs] Let_def)
qed

lemma closestNoteY_loop_below:
  assumes "[] \<notin> set chords"
  shows "closestNoteY_loop False s nw clef slh chords i acc
     = fold (\<lambda>x m. if number_less m (Finite x) then Finite x else m)
         (map (\<lambda>(k, chord).
                 Max ((\<lambda>note. positionToY (getPositionByNote note clef) slh) ` set chord)
                   - s * of_nat k * nw)
            (zip [i..<i + length chords] chords)) acc"
  using assms
proof (induction chords arbitrary: i acc)
  case Nil
  then show ?case by simp
next
  case (Cons c cs)
  from Cons.prems have c: "c \<noteq> []" and cs: "[] \<notin> set cs" by auto
  have z: "zip [i..<i + length (c # cs)] (c # cs) = (i, c) # zip [Suc i..<Suc i + length cs] cs"
    by (simp add: upt_conv_Cons del: upt_Suc)
  from c have m: "Math_max (map (\<lambda>note. positionToY (getPositionByNote note clef) slh) c)
      = Finite (Max ((\<lambda>note. positionToY (getPositionByNote note clef) slh) ` set c))"
    by (simp add: Math_max_nonempty)
  show ?case
    unfolding z by (simp add: m Cons.IH [OF cs] Let_def)
qed

lemma image_zip_upt:
  "(\<lambda>(k, c). F k c) ` set (zip [0..<length cs] cs) = (\<lambda>k. F k (cs ! k)) ` {..<length cs}"
proof -
  have "set (zip [0..<length cs] cs) = (\<lambda>k. (k, cs ! k)) ` {..<length cs}"
  proof (intro set_eqI iffI)
    fix p
    assume "p \<in> set (zip [0..<length cs] cs)"
    then obtain i where "i < length cs" "p = ([0..<length cs] ! i, cs ! i)"
      by (auto simp: set_zip)
    then show "p \<in> (\<lambda>k. (k, cs ! k)) ` {..<length cs}" by simp
  next
    fix p
    assume "p \<in> (\<lambda>k. (k, cs ! k)) ` {..<length cs}"
    then obtain k where k: "k < length cs" "p = (k, cs ! k)" by auto
    then have "p = (zip [0..<length cs] cs) ! k" "k < length (zip [0..<length cs] cs)"
      by simp_all
    then show "p \<in> set (zip [0..<length cs] cs)"
      by (metis nth_mem)
  qed
  then show ?thesis by (simp add: image_image)
qed

lemma fold_sum_delta:
  "fold (\<lambda>p delta. delta + p - (m::rat)) ps d = d + sum_list (map (\<lambda>p. p - m) ps)"
  by (induction ps arbitrary: d) simp_all

lemma shouldBeAbove_sum:
  "shouldBeAbove g clef
     = (sum_list (map (\<lambda>chord. getAveragePitch chord - (if clef = TREBLE then 71 else 50)) g) < 0)"
  by (simp add: shouldBeAbove_def fold_sum_delta getAveragePitch_def comp_def)

lemma getBeamLine_above:
  assumes "2 \<le> length g" and "[] \<notin> set g" and "shouldBeAbove g clef"
  shows "getBeamLine g clef sx nw slh =
     Some \<lparr>isAbove = True,
           getY = (\<lambda>x. Finite
             (Min ((\<lambda>i. Min ((\<lambda>note. positionToY (getPositionByNote note clef) slh) ` set (g ! i))
                         - displayedSlope g * of_nat i * nw) ` {..<length g})
                - displayedSlope g * sx + - 2 * slh + displayedSlope g * x))\<rparr>"
proof -
  from assms(1) have ne: "g \<noteq> []" by auto
  then have ne': "map (\<lambda>(k, chord).
                 Min ((\<lambda>note. positionToY (getPositionByNote note clef) slh) ` set chord)
                   - displayedSlope g * of_nat k * nw) (zip [0..<length g] g) \<noteq> []"
    by (cases g) (simp_all add: upt_conv_Cons del: upt_Suc)
  show ?thesis
    using assms(1,3)
    by (simp add: getBeamLine_def Let_def closestNoteY_loop_above [OF assms(2)]
        fold_min_Infinity [OF ne'] image_zip_upt [where cs = g])
qed

lemma getBeamLine_below:
  assumes "2 \<le> length g" and "[] \<notin> set g" and "\<not> shouldBeAbove g clef"
  shows "getBeamLine g clef sx nw slh =
     Some \<lparr>isAbove = False,
           getY = (\<lambda>x. Finite
             (Max ((\<lambda>i. Max ((\<lambda>note. positionToY (getPositionByNote note clef) slh) ` set (g ! i))
                         - displayedSlope g * of_nat i * nw) ` {..<length g})
                - displayedSlope g * sx + 2 * slh + displayedSlope g * x))\<rparr>"
proof -
  from assms(1) have ne: "g \<noteq> []" by auto
  then have ne': "map (\<lambda>(k, chord).
                 Max ((\<lambda>note. positionToY (getPositionByNote note clef) slh) ` set chord)
                   - displayedSlope g * of_nat k * nw) (zip [0..<length g] g) \<noteq> []"
    by (cases g) (simp_all add: upt_conv_Cons del: upt_Suc)
  show ?thesis
    using assms(1,3)
    by (simp add: getBeamLine_def Let_def closestNoteY_loop_below [OF assms(2)]
        fold_max_NegInfinity [OF ne'] image_zip_upt [where cs = g])
qed


lemma displayedSlope_eq:
  "displayedSlope g =
     (if averageSlope (map getAveragePitch g) = 0 then 0
      else if 0 < averageSlope (map getAveragePitch g) then 20 / 100 else - (20 / 100))"
proof -
  have "getAveragePitch = (\<lambda>chord. average (map pitch chord))"
    by (rule ext) (simp add: getAveragePitch_def)
  then show ?thesis by (simp add: displayedSlope_def BEAM_SLOPE_def Let_def)
qed

lemma averageSlope_two: "averageSlope [p, q] = q - p"
  by (simp add: averageSlope_def average_def)

text \<open>
  C8: for a beam group of at least two chords, each with a note, the line that
  \<^verbatim>\<open>getBeamLine\<close> returns is y = slope * x + b with slope exactly 0 when the average slope of
  the chords' average pitches is 0, exactly 0.20 when it is positive and exactly -0.20 when
  it is negative; for two chords of equal average pitch the line is horizontal.
\<close>

theorem C8_displayed_slope:
  assumes "2 \<le> length beamGroup" and "[] \<notin> set beamGroup"
  shows "\<exists>beamLine b. getBeamLine beamGroup clef startingX noteWidth slh = Some beamLine \<and>
     (\<forall>x. getY beamLine x = Finite
        ((if averageSlope (map getAveragePitch beamGroup) = 0 then 0
          else if 0 < averageSlope (map getAveragePitch beamGroup) then 20 / 100
          else - (20 / 100)) * x + b)) \<and>
     (\<forall>c1 c2. beamGroup = [c1, c2] \<and> getAveragePitch c1 = getAveragePitch c2 \<longrightarrow>
        (\<forall>x. getY beamLine x = Finite b))"
proof -
  have flat: "displayedSlope beamGroup = 0"
    if "beamGroup = [c1, c2] \<and> getAveragePitch c1 = getAveragePitch c2" for c1 c2
    using that by (simp add: displayedSlope_eq averageSlope_two)
  show ?thesis
  proof (cases "shouldBeAbove beamGroup clef")
    case True
    let ?b = "Min ((\<lambda>i. Min ((\<lambda>note. positionToY (getPositionByNote note clef) slh)
                              ` set (beamGroup ! i))
                        - displayedSlope beamGroup * of_nat i * noteWidth) ` {..<length beamGroup})
                - displayedSlope beamGroup * startingX + - 2 * slh"
    from getBeamLine_above [OF assms True, of startingX noteWidth slh]
    obtain beamLine where bl: "getBeamLine beamGroup clef startingX noteWidth slh = Some beamLine"
      and y: "\<And>x. getY beamLine x = Finite (?b + displayedSlope beamGroup * x)"
      by simp
    from y have "\<forall>x. getY beamLine x = Finite
        ((if averageSlope (map getAveragePitch beamGroup) = 0 then 0
          else if 0 < averageSlope (map getAveragePitch beamGroup) then 20 / 100
          else - (20 / 100)) * x + ?b)"
      by (simp add: displayedSlope_eq [symmetric] add.commute)
    moreover from y flat
    have "\<forall>c1 c2. beamGroup = [c1, c2] \<and> getAveragePitch c1 = getAveragePitch c2 \<longrightarrow>
        (\<forall>x. getY beamLine x = Finite ?b)"
      by simp
    ultimately show ?thesis using bl by blast
  next
    case False
    let ?b = "Max ((\<lambda>i. Max ((\<lambda>note. positionToY (getPositionByNote note clef) slh)
                              ` set (beamGroup ! i))
                        - displayedSlope beamGroup * of_nat i * noteWidth) ` {..<length beamGroup})
                - displayedSlope beamGroup * startingX + 2 * slh"
    from getBeamLine_below [OF assms False, of startingX noteWidth slh]
    obtain beamLine where bl: "getBeamLine beamGroup clef startingX noteWidth slh = Some beamLine"
      and y: "\<And>x. getY beamLine x = Finite (?b + displayedSlope beamGroup * x)"
      by simp
    from y have "\<forall>x. getY beamLine x = Finite
        ((if averageSlope (map getAveragePitch beamGroup) = 0 then 0
          else if 0 < averageSlope (map getAveragePitch beamGroup) then 20 / 100
          else - (20 / 100)) * x + ?b)"
      by (simp add: displayedSlope_eq [symmetric] add.commute)
    moreover from y flat
    have "\<forall>c1 c2. beamGroup = [c1, c2] \<and> getAveragePitch c1 = getAveragePitch c2 \<longrightarrow>
        (\<forall>x. getY beamLine x = Finite ?b)"
      by simp
    ultimately show ?thesis using bl by blast
  qed
qed


theorem C8_displayed_slope_witness:
  "2 \<le> length [[exampleNote ''C'' NATURAL 4 60 EIGHTH], [exampleNote ''C'' NATURAL 4 60 EIGHTH]] \<and>
   [] \<notin> set [[exampleNote ''C'' NATURAL 4 60 EIGHTH], [exampleNote ''C'' NATURAL 4 60 EIGHTH]] \<and>
   averageSlope (map getAveragePitch
     [[exampleNote ''C'' NATURAL 4 60 EIGHTH], [exampleNote ''C'' NATURAL 4 60 EIGHTH]]) = 0 \<and>
   (\<exists>beamLine.
      getBeamLine [[exampleNote ''C'' NATURAL 4 60 EIGHTH], [exampleNote ''C'' NATURAL 4 60 EIGHTH]]
        TREBLE 40 25 10 = Some beamLine \<and>
      (\<forall>x. getY beamLine x = Finite 30)) \<and>
   2 \<le> length [[exampleNote ''C'' NATURAL 4 60 EIGHTH], [exampleNote ''E'' NATURAL 4 64 EIGHTH]] \<and>
   [] \<notin> set [[exampleNote ''C'' NATURAL 4 60 EIGHTH], [exampleNote ''E'' NATURAL 4 64 EIGHTH]] \<and>
   averageSlope (map getAveragePitch
     [[exampleNote ''C'' NATURAL 4 60 EIGHTH], [exampleNote ''E'' NATURAL 4 64 EIGHTH]]) = 4 \<and>
   (\<exists>beamLine.
      getBeamLine [[exampleNote ''C'' NATURAL 4 60 EIGHTH], [exampleNote ''E'' NATURAL 4 64 EIGHTH]]
        TREBLE 40 25 10 = Some beamLine \<and>
      (\<forall>x. getY beamLine x = Finite (20 / 100 * x + 7)))"
  (is "?len0 \<and> ?ne0 \<and> ?s0 \<and> ?flat \<and> ?len1 \<and> ?ne1 \<and> ?s1 \<and> ?rising")
proof -
  have len0: ?len0 and ne0: ?ne0 and len1: ?len1 and ne1: ?ne1 by simp_all
  have s0: ?s0 and s1: ?s1
    by (simp_all add: averageSlope_two getAveragePitch_def average_def exampleNote_def)
  have at0: "map_option (\<lambda>beamLine. getY beamLine 0)
     (getBeamLine [[exampleNote ''C'' NATURAL 4 60 EIGHTH], [exampleNote ''C'' NATURAL 4 60 EIGHTH]]
        TREBLE 40 25 10) = Some (Finite 30)"
    by code_simp
  have at1: "map_option (\<lambda>beamLine. getY beamLine 0)
     (getBeamLine [[exampleNote ''C'' NATURAL 4 60 EIGHTH], [exampleNote ''E'' NATURAL 4 64 EIGHTH]]
        TREBLE 40 25 10) = Some (Finite 7)"
    by code_simp
  from C8_displayed_slope [OF len0 ne0, of TREBLE 40 25 10] s0 at0
  have flat: ?flat by auto
  from C8_displayed_slope [OF len1 ne1, of TREBLE 40 25 10] s1 at1
  have rising: ?rising by auto
  from len0 ne0 s0 flat len1 ne1 s1 rising show ?thesis by blast
qed

section \<open>Staff positions and stems\<close>

lemma indexOf_TREBLE_CLEF [simp]:
  "indexOf TREBLE_CLEF ''C'' = 0" "indexOf TREBLE_CLEF ''B'' = 6"
  by (simp_all add: TREBLE_CLEF_def)

text \<open>
  C5, as the claim states it, fails: in the treble clef C flat at octave 4 is at position 7
  and B natural at octave 3 at position -1, B sharp at octave 3 at position -8 and C natural
  at octave 4 at position 0.
\<close>

theorem C5_octave_borderline_counterexample:
  "getNoteY_basePosition (exampleNote ''C'' FLAT 4 59 QUARTER) TREBLE
     \<noteq> getNoteY_basePosition (exampleNote ''B'' NATURAL 3 59 QUARTER) TREBLE + 1 \<and>
   getNoteY_basePosition (exampleNote ''B'' SHARP 3 60 QUARTER) TREBLE
     \<noteq> getNoteY_basePosition (exampleNote ''C'' NATURAL 4 60 QUARTER) TREBLE - 1 \<and>
   getNoteY_basePosition (exampleNote ''C'' FLAT 4 59 QUARTER) TREBLE = 7 \<and>
   getNoteY_basePosition (exampleNote ''B'' NATURAL 3 59 QUARTER) TREBLE = - 1 \<and>
   getNoteY_basePosition (exampleNote ''B'' SHARP 3 60 QUARTER) TREBLE = - 8 \<and>
   getNoteY_basePosition (exampleNote ''C'' NATURAL 4 60 QUARTER) TREBLE = 0"
  by (simp add: getNoteY_basePosition_def exampleNote_def)

text \<open>
  C5, amended: for any clef and any octave, the position that \<^verbatim>\<open>getNoteY\<close> computes for
  C flat equals the position for B natural at the same octave plus 1, and the position for
  B sharp equals the position for C natural at the same octave minus 1.
\<close>

theorem C5_octave_borderline:
  "(letter (getLabel cFlat) = ''C'' \<and> accidental (getLabel cFlat) = FLAT \<and>
    letter (getLabel bNatural) = ''B'' \<and> accidental (getLabel bNatural) = NATURAL \<and>
    getOctave cFlat = getOctave bNatural \<longrightarrow>
      getNoteY_basePosition cFlat clef = getNoteY_basePosition bNatural clef + 1) \<and>
   (letter (getLabel bSharp) = ''B'' \<and> accidental (getLabel bSharp) = SHARP \<and>
    letter (getLabel cNatural) = ''C'' \<and> accidental (getLabel cNatural) = NATURAL \<and>
    getOctave bSharp = getOctave cNatural \<longrightarrow>
      getNoteY_basePosition bSharp clef = getNoteY_basePosition cNatural clef - 1)"
  by (simp add: getNoteY_basePosition_def)

theorem C5_octave_borderline_witness:
  "getOctave (exampleNote ''C'' FLAT 3 59 QUARTER) = getOctave (exampleNote ''B'' NATURAL 3 59 QUARTER) \<and>
   getNoteY_basePosition (exampleNote ''C'' FLAT 3 59 QUARTER) TREBLE
     = getNoteY_basePosition (exampleNote ''B'' NATURAL 3 59 QUARTER) TREBLE + 1 \<and>
   getNoteY_basePosition (exampleNote ''C'' FLAT 3 59 QUARTER) TREBLE = 0 \<and>
   getOctave (exampleNote ''B'' SHARP 4 72 QUARTER) = getOctave (exampleNote ''C'' NATURAL 4 60 QUARTER) \<and>
   getNoteY_basePosition (exampleNote ''B'' SHARP 4 72 QUARTER) TREBLE
     = getNoteY_basePosition (exampleNote ''C'' NATURAL 4 60 QUARTER) TREBLE - 1 \<and>
   getNoteY_basePosition (exampleNote ''C'' NATURAL 4 60 QUARTER) TREBLE = 0"
  (is "?o1 \<and> ?flat \<and> ?v1 \<and> ?o2 \<and> ?sharp \<and> ?v2")
proof -
  have o1: ?o1 and o2: ?o2 by (simp_all add: exampleNote_def)
  have v1: ?v1 and v2: ?v2 by (simp_all add: getNoteY_basePosition_def exampleNote_def)
  note inst = C5_octave_borderline
    [where cFlat = "exampleNote ''C'' FLAT 3 59 QUARTER"
       and bNatural = "exampleNote ''B'' NATURAL 3 59 QUARTER" and clef = TREBLE
       and bSharp = "exampleNote ''B'' SHARP 4 72 QUARTER"
       and cNatural = "exampleNote ''C'' NATURAL 4 60 QUARTER"]
  from inst [THEN conjunct1] have flat: ?flat by (simp add: exampleNote_def)
  from inst [THEN conjunct2] have sharp: ?sharp by (simp add: exampleNote_def)
  from o1 flat v1 o2 sharp v2 show ?thesis by blast
qed

text \<open>
  C6: a note on the middle staff line (B at octave 4 in the treble clef, y = 2 *
  staffLineHeight) and no stem endpoint given: \<^verbatim>\<open>SvgChord\<close> draws its head and one stem, on
  the right of the head (x plus the note-head half-width) and pointing up (from y = 20 to
  y = 20 - 3 * staffLineHeight), since \<^verbatim>\<open>createNoteStem\<close> points a stem down only when
  y < 2 * staffLineHeight.
\<close>

theorem C6_middle_line_stem:
  "getNoteY (exampleNote ''B'' NATURAL 4 71 QUARTER) TREBLE 10 = 2 * 10 \<and>
   SvgChord 100 10 1 [exampleNote ''B'' NATURAL 4 71 QUARTER] TREBLE None [''B'' \<mapsto> NATURAL]
     = [Ellipse 100 20 (35 / 6) (25 / 6) 2 True,
        Line (100 + 35 / 6) (100 + 35 / 6) (Finite 20) (Finite (20 - 3 * 10)) 2]"
  by (simp add: SvgChord_def SvgChord_note_def getNoteY_def getNoteY_basePosition_def
      createNoteHead_def createNoteStem_def getDisplayedAccidental_def exampleNote_def
      NOTE_WIDTH_RATIO_def NOTE_HEIGHT_RATIO_def Let_def)

section \<open>Accidentals\<close>

lemma glyphs_append: "glyphs (ps @ qs) = glyphs ps @ glyphs qs"
  by (induction ps rule: glyphs.induct) simp_all

lemma glyphs_SvgChord_note:
  "glyphs (SvgChord_note x slh sw clef stemTo acc note)
     = (if acc (letter (getLabel note)) \<noteq> Some (accidental (getLabel note))
        then [accidental (getLabel note)] else [])"
  by (simp add: SvgChord_note_def Let_def createNoteHead_def createNoteStem_def
      createAccidental_def getDisplayedAccidental_def glyphs_append)

lemma glyphs_SvgChord:
  "glyphs (SvgChord x slh sw noteGroup clef stemTo acc)
     = concat (map (\<lambda>note. if acc (letter (getLabel note)) \<noteq> Some (accidental (getLabel note))
                            then [accidental (getLabel note)] else []) noteGroup)"
  unfolding SvgChord_def
  by (induction noteGroup) (simp_all add: glyphs_append glyphs_SvgChord_note)

lemma getDisplayedAccidentals_fold:
  "fold (\<lambda>note obj. if acc (letter (getLabel note)) \<noteq> Some (accidental (getLabel note))
                     then obj(letter (getLabel note) \<mapsto> accidental (getLabel note)) else obj)
     ns m l
   = (if [n \<leftarrow> ns. letter (getLabel n) = l \<and> acc l \<noteq> Some (accidental (getLabel n))] = []
      then m l
      else Some (accidental (getLabel
             (last [n \<leftarrow> ns. letter (getLabel n) = l \<and> acc l \<noteq> Some (accidental (getLabel n))]))))"
  by (induction ns rule: rev_induct) auto

lemma getDisplayedAccidentals_lookup:
  "getDisplayedAccidentals ns acc l
   = (if [n \<leftarrow> ns. letter (getLabel n) = l \<and> acc l \<noteq> Some (accidental (getLabel n))] = []
      then None
      else Some (accidental (getLabel
             (last [n \<leftarrow> ns. letter (getLabel n) = l \<and> acc l \<noteq> Some (accidental (getLabel n))]))))"
  by (simp add: getDisplayedAccidentals_def getDisplayedAccidentals_fold)

text \<open>
  C3, amended: in one round of the inner loop of \<^verbatim>\<open>createClefNotes\<close> the accidental of
  every note of the chord is displayed exactly when it differs from the state of the
  accidentals as it was before the chord; the state changes only after the chord; and
  afterwards the state for a letter holds the accidental of the last note of that letter in
  the chord's sequence whose accidental differs from the state before the chord, and is
  unchanged when no note of that letter differs.
\<close>

theorem C3_chord_accidentals:
  assumes "createClefNotes_chord rv sizes clef beamLine st noteGroup = Inr st'"
  shows "(\<exists>primitives.
            elementsToDisplay st' = elementsToDisplay st @ [SvgChordElement primitives] \<and>
            glyphs primitives =
              concat (map (\<lambda>note.
                  if accidentalsInForce st (letter (getLabel note)) \<noteq> Some (accidental (getLabel note))
                  then [accidental (getLabel note)] else []) noteGroup)) \<and>
         (\<forall>l. accidentalsInForce st' l =
            (if [n \<leftarrow> noteGroup. letter (getLabel n) = l \<and>
                   accidentalsInForce st l \<noteq> Some (accidental (getLabel n))] = []
             then accidentalsInForce st l
             else Some (accidental (getLabel (last
                    [n \<leftarrow> noteGroup. letter (getLabel n) = l \<and>
                       accidentalsInForce st l \<noteq> Some (accidental (getLabel n))])))))"
proof -
  from assms obtain n ns where ng: "noteGroup = n # ns"
    by (cases noteGroup) (simp_all add: createClefNotes_chord_def)
  from assms have e: "elementsToDisplay st' = elementsToDisplay st @
      [createSvgChord sizes noteGroup (currentX st) clef (accidentalsInForce st)
         (case beamLine of Some bl \<Rightarrow> Some (getY bl (currentX st)) | None \<Rightarrow> None)]"
    and a: "accidentalsInForce st'
      = accidentalsInForce st ++ getDisplayedAccidentals noteGroup (accidentalsInForce st)"
    unfolding ng by (auto simp: createClefNotes_chord_def Let_def)
  have first: "\<exists>primitives.
            elementsToDisplay st' = elementsToDisplay st @ [SvgChordElement primitives] \<and>
            glyphs primitives =
              concat (map (\<lambda>note.
                  if accidentalsInForce st (letter (getLabel note)) \<noteq> Some (accidental (getLabel note))
                  then [accidental (getLabel note)] else []) noteGroup)"
    unfolding e createSvgChord_def by (simp add: glyphs_SvgChord)
  have second: "accidentalsInForce st' l =
            (if [n \<leftarrow> noteGroup. letter (getLabel n) = l \<and>
                   accidentalsInForce st l \<noteq> Some (accidental (getLabel n))] = []
             then accidentalsInForce st l
             else Some (accidental (getLabel (last
                    [n \<leftarrow> noteGroup. letter (getLabel n) = l \<and>
                       accidentalsInForce st l \<noteq> Some (accidental (getLabel n))]))))" for l
    unfolding a by (simp add: map_add_def getDisplayedAccidentals_lookup)
  from first second show ?thesis by blast
qed

theorem C3_chord_accidentals_witness:
  "\<exists>st'. createClefNotes_chord exampleRhythmicValue (sizes_of 200) TREBLE None
        \<lparr>elementsToDisplay = [], currentX = 40,
         accidentalsInForce = [''F'' \<mapsto> NATURAL], beamStopX = 40\<rparr>
        [exampleNote ''F'' SHARP 4 66 QUARTER, exampleNote ''F'' FLAT 4 64 QUARTER,
         exampleNote ''A'' NATURAL 4 69 QUARTER] = Inr st' \<and>
      (\<exists>primitives. elementsToDisplay st' = [SvgChordElement primitives] \<and>
         glyphs primitives = [SHARP, FLAT, NATURAL]) \<and>
      accidentalsInForce st' ''F'' = Some FLAT \<and>
      accidentalsInForce st' ''A'' = Some NATURAL \<and>
      accidentalsInForce st' ''G'' = None"
proof -
  obtain st' where r: "createClefNotes_chord exampleRhythmicValue (sizes_of 200) TREBLE None
        \<lparr>elementsToDisplay = [], currentX = 40,
         accidentalsInForce = [''F'' \<mapsto> NATURAL], beamStopX = 40\<rparr>
        [exampleNote ''F'' SHARP 4 66 QUARTER, exampleNote ''F'' FLAT 4 64 QUARTER,
         exampleNote ''A'' NATURAL 4 69 QUARTER] = Inr st'"
    by (simp add: createClefNotes_chord_def Let_def)
  from C3_chord_accidentals [OF r]
  have "(\<exists>primitives. elementsToDisplay st' = [SvgChordElement primitives] \<and>
         glyphs primitives = [SHARP, FLAT, NATURAL]) \<and>
      accidentalsInForce st' ''F'' = Some FLAT \<and>
      accidentalsInForce st' ''A'' = Some NATURAL \<and>
      accidentalsInForce st' ''G'' = None"
    by (simp add: exampleNote_def)
  with r show ?thesis by blast
qed

text \<open>
  C3, as the claim states it, fails: with F natural in force, the chord of F sharp then
  F natural leaves F sharp in force, though the last note of letter F in the chord is natural.
\<close>

theorem C3_chord_accidentals_counterexample:
  "map_sum id (\<lambda>st. accidentalsInForce st ''F'')
     (createClefNotes_chord exampleRhythmicValue (sizes_of 200) TREBLE None
        \<lparr>elementsToDisplay = [], currentX = 40,
         accidentalsInForce = [''F'' \<mapsto> NATURAL], beamStopX = 40\<rparr>
        [exampleNote ''F'' SHARP 4 66 QUARTER, exampleNote ''F'' NATURAL 4 65 QUARTER])
     = Inr (Some SHARP) \<and>
   letter (getLabel (last [exampleNote ''F'' SHARP 4 66 QUARTER, exampleNote ''F'' NATURAL 4 65 QUARTER]))
     = ''F'' \<and>
   accidental (getLabel (last [exampleNote ''F'' SHARP 4 66 QUARTER, exampleNote ''F'' NATURAL 4 65 QUARTER]))
     = NATURAL \<and>
   map_sum id (\<lambda>st. accidentalsInForce st ''F'')
     (createClefNotes_chord exampleRhythmicValue (sizes_of 200) TREBLE None
        \<lparr>elementsToDisplay = [], currentX = 40,
         accidentalsInForce = [''F'' \<mapsto> NATURAL], beamStopX = 40\<rparr>
        [exampleNote ''F'' SHARP 4 66 QUARTER, exampleNote ''F'' NATURAL 4 65 QUARTER])
     \<noteq> Inr (Some (accidental (getLabel
           (last [exampleNote ''F'' SHARP 4 66 QUARTER, exampleNote ''F'' NATURAL 4 65 QUARTER]))))"
  by (simp add: createClefNotes_chord_def Let_def getDisplayedAccidentals_def exampleNote_def)

section \<open>The layout of a clef and of the staff\<close>

lemma chordGlyphs_append: "chordGlyphs (es @ fs) = chordGlyphs es @ chordGlyphs fs"
  by (induction es rule: chordGlyphs.induct) simp_all

lemma trackAccidentals_append:
  "trackAccidentals acc (xs @ ys) = trackAccidentals acc xs @ trackAccidentals (accidentalsAfter acc xs) ys"
  by (induction xs arbitrary: acc) simp_all

lemma accidentalsAfter_append:
  "accidentalsAfter acc (xs @ ys) = accidentalsAfter (accidentalsAfter acc xs) ys"
  by (induction xs arbitrary: acc) simp_all

lemma createClefNotes_chord_Inr:
  assumes "createClefNotes_chord rv sizes clef beamLine st c = Inr st'"
  shows "chordGlyphs (elementsToDisplay st')
           = chordGlyphs (elementsToDisplay st) @ [displayedIn (accidentalsInForce st) c]"
    and "accidentalsInForce st' = accidentalsInForce st ++ getDisplayedAccidentals c (accidentalsInForce st)"
  using assms
  by (auto simp: createClefNotes_chord_def Let_def createSvgChord_def chordGlyphs_append
      glyphs_SvgChord displayedIn_def split: list.splits)

lemma createClefNotes_chords_Inr:
  "createClefNotes_chords rv sizes clef beamLine cs st = Inr st' \<Longrightarrow>
     chordGlyphs (elementsToDisplay st')
       = chordGlyphs (elementsToDisplay st) @ trackAccidentals (accidentalsInForce st) cs \<and>
     accidentalsInForce st' = accidentalsAfter (accidentalsInForce st) cs"
proof (induction cs arbitrary: st)
  case Nil
  then show ?case by simp
next
  case (Cons c cs)
  from Cons.prems obtain st1 where s: "createClefNotes_chord rv sizes clef beamLine st c = Inr st1"
    and r: "createClefNotes_chords rv sizes clef beamLine cs st1 = Inr st'"
    by (auto split: sum.splits)
  from Cons.IH [OF r] createClefNotes_chord_Inr [OF s] show ?case by simp
qed

lemma createClefNotes_group_eq:
  assumes "g = (n # ns) # gs"
  shows "createClefNotes_group rv sizes clef st g =
     (case createClefNotes_chords rv sizes clef
             (getBeamLine g clef (currentX st)
                (BASE_NOTE_GAP_RATIO * staffHeight sizes * rv (rhythmicValue n))
                (staffLineHeight sizes)) g (st\<lparr>beamStopX := currentX st\<rparr>) of
        Inl e \<Rightarrow> Inl e
      | Inr st' \<Rightarrow>
          (case getBeamLine g clef (currentX st)
                  (BASE_NOTE_GAP_RATIO * staffHeight sizes * rv (rhythmicValue n))
                  (staffLineHeight sizes) of
             None \<Rightarrow> Inr st'
           | Some bl \<Rightarrow>
               let noteHeadWidth = NOTE_WIDTH_RATIO * staffLineHeight sizes;
                   beamStartX' = currentX st + (if isAbove bl then noteHeadWidth else - noteHeadWidth);
                   beamStopX' = beamStopX st' + (if isAbove bl then noteHeadWidth else - noteHeadWidth)
               in Inr (st'\<lparr>elementsToDisplay :=
                             elementsToDisplay st' @ [createSvgBeam sizes (getY bl) beamStartX' beamStopX'],
                           beamStopX := beamStopX'\<rparr>)))"
  unfolding assms by (simp add: createClefNotes_group_def Let_def)

lemma createClefNotes_group_Inr:
  assumes "createClefNotes_group rv sizes clef st g = Inr st'"
  shows "chordGlyphs (elementsToDisplay st')
       = chordGlyphs (elementsToDisplay st) @ trackAccidentals (accidentalsInForce st) g \<and>
     accidentalsInForce st' = accidentalsAfter (accidentalsInForce st) g"
proof -
  from assms obtain n ns gs where g: "g = (n # ns) # gs"
    by (auto simp: createClefNotes_group_def split: list.splits)
  from assms obtain st1 where
    c: "createClefNotes_chords rv sizes clef
          (getBeamLine g clef (currentX st)
            (BASE_NOTE_GAP_RATIO * staffHeight sizes * rv (rhythmicValue n))
            (staffLineHeight sizes)) g (st\<lparr>beamStopX := currentX st\<rparr>) = Inr st1"
    and e: "chordGlyphs (elementsToDisplay st') = chordGlyphs (elementsToDisplay st1)"
      "accidentalsInForce st' = accidentalsInForce st1"
    by (auto simp: createClefNotes_group_eq [OF g] chordGlyphs_append createSvgBeam_def Let_def
        split: sum.splits option.splits)
  from createClefNotes_chords_Inr [OF c] e show ?thesis by simp
qed

lemma createClefNotes_groups_Inr:
  "createClefNotes_groups rv sizes clef gs st = Inr st' \<Longrightarrow>
     chordGlyphs (elementsToDisplay st')
       = chordGlyphs (elementsToDisplay st) @ trackAccidentals (accidentalsInForce st) (concat gs) \<and>
     accidentalsInForce st' = accidentalsAfter (accidentalsInForce st) (concat gs)"
proof (induction gs arbitrary: st)
  case Nil
  then show ?case by simp
next
  case (Cons g gs)
  from Cons.prems obtain st1 where s: "createClefNotes_group rv sizes clef st g = Inr st1"
    and r: "createClefNotes_groups rv sizes clef gs st1 = Inr st'"
    by (auto split: sum.splits)
  from Cons.IH [OF r] createClefNotes_group_Inr [OF s] show ?case
    by (simp add: trackAccidentals_append accidentalsAfter_append)
qed

lemma createClefNotes_Inr:
  assumes "createClefNotes rv sizes clef measureClef elems startX key = Inr (elems', x')"
  shows "chordGlyphs elems' = chordGlyphs elems @ trackAccidentals key measureClef"
proof -
  from assms obtain gs st where g: "groupBeamGroups measureClef = Inr gs"
    and r: "createClefNotes_groups rv sizes clef gs
              \<lparr>elementsToDisplay = elems, currentX = startX,
               accidentalsInForce = key, beamStopX = startX\<rparr> = Inr st"
    and e: "elems' = elementsToDisplay st"
    by (auto simp: createClefNotes_def split: sum.splits)
  from groupBeamGroups_inv [OF g] have "concat gs = measureClef" by simp
  with createClefNotes_groups_Inr [OF r] e show ?thesis by simp
qed

subsection \<open>When the layout of a clef returns\<close>

lemma createClefNotes_chord_total:
  "c \<noteq> [] \<Longrightarrow> \<exists>st'. createClefNotes_chord rv sizes clef beamLine st c = Inr st'"
  by (cases c) (simp_all add: createClefNotes_chord_def Let_def)

lemma createClefNotes_chords_total:
  "[] \<notin> set cs \<Longrightarrow> \<exists>st'. createClefNotes_chords rv sizes clef beamLine cs st = Inr st'"
proof (induction cs arbitrary: st)
  case Nil
  then show ?case by simp
next
  case (Cons c cs)
  then have "c \<noteq> []" by auto
  from createClefNotes_chord_total [OF this]
  obtain st1 where "createClefNotes_chord rv sizes clef beamLine st c = Inr st1" by blast
  with Cons.IH [of st1] Cons.prems show ?case by auto
qed

lemma createClefNotes_group_total:
  assumes "g \<noteq> []" and "[] \<notin> set g"
  shows "\<exists>st'. createClefNotes_group rv sizes clef st g = Inr st'"
proof -
  from assms obtain n ns gs where g: "g = (n # ns) # gs"
    by (cases g; cases "hd g") auto
  from createClefNotes_chords_total [OF assms(2)]
  obtain st1 where
    "createClefNotes_chords rv sizes clef
       (getBeamLine g clef (currentX st)
          (BASE_NOTE_GAP_RATIO * staffHeight sizes * rv (rhythmicValue n))
          (staffLineHeight sizes)) g (st\<lparr>beamStopX := currentX st\<rparr>) = Inr st1"
    by blast
  then show ?thesis
    by (simp add: createClefNotes_group_eq [OF g] Let_def split: option.splits)
qed

lemma createClefNotes_groups_total:
  "[] \<notin> set gs \<Longrightarrow> [] \<notin> set (concat gs) \<Longrightarrow>
     \<exists>st'. createClefNotes_groups rv sizes clef gs st = Inr st'"
proof (induction gs arbitrary: st)
  case Nil
  then show ?case by simp
next
  case (Cons g gs)
  then have "g \<noteq> []" "[] \<notin> set g" by auto
  from createClefNotes_group_total [OF this]
  obtain st1 where "createClefNotes_group rv sizes clef st g = Inr st1" by blast
  with Cons.IH [of st1] Cons.prems show ?case by auto
qed

lemma createClefNotes_total:
  assumes "[] \<notin> set measureClef"
  shows "\<exists>elems' x'. createClefNotes rv sizes clef measureClef elems startX key = Inr (elems', x')"
proof -
  from groupBeamGroups_total [OF assms] obtain gs where g: "groupBeamGroups measureClef = Inr gs"
    by blast
  from groupBeamGroups_inv [OF g] assms
  have "[] \<notin> set gs" "[] \<notin> set (concat gs)" by (auto simp: beamGroup_inv_def)
  from createClefNotes_groups_total [OF this]
  obtain st where "createClefNotes_groups rv sizes clef gs
              \<lparr>elementsToDisplay = elems, currentX = startX,
               accidentalsInForce = key, beamStopX = startX\<rparr> = Inr st" by blast
  with g show ?thesis by (simp add: createClefNotes_def)
qed

lemma GrandStaff_measure_Inr:
  assumes "GrandStaff_measure rv height key st m = Inr st'"
  shows "\<exists>tm tx bm bx.
      createClefNotes rv (sizes_of height) TREBLE (trebleClef m) (trebleMusic st) (trebleX st) key
        = Inr (tm, tx) \<and>
      createClefNotes rv (sizes_of height) BASS (bassClef m) (bassMusic st) (bassX st) key
        = Inr (bm, bx) \<and>
      barLines st' = barLines st @
        [SvgBarLineElement (max tx bx) (height * PADDING_RATIO)
           (height * (2 * STAFF_RATIO + GAP_RATIO)) (staffThickness (sizes_of height))] \<and>
      trebleX st' = max tx bx + 50 \<and> bassX st' = max tx bx + 50"
  using assms
  by (auto simp: GrandStaff_measure_def Let_def split: sum.splits prod.splits)

lemma GrandStaff_measures_Inr:
  "GrandStaff_measures rv height key ms st = Inr st' \<Longrightarrow>
     length (barLines st') = length (barLines st) + length ms \<and>
     (ms \<noteq> [] \<longrightarrow> trebleX st' = bassX st' \<and> trebleX st' = barX (last (barLines st')) + 50) \<and>
     (ms = [] \<longrightarrow> st' = st)"
proof (induction ms arbitrary: st)
  case Nil
  then show ?case by simp
next
  case (Cons m ms)
  from Cons.prems obtain st1 where s: "GrandStaff_measure rv height key st m = Inr st1"
    and r: "GrandStaff_measures rv height key ms st1 = Inr st'"
    by (auto split: sum.splits)
  from GrandStaff_measure_Inr [OF s] obtain b
    where b: "barLines st1 = barLines st @ [b]" "barX b + 50 = trebleX st1" "trebleX st1 = bassX st1"
    by auto
  from Cons.IH [OF r] b show ?case by (cases "ms = []") auto
qed

lemma GrandStaff_measure_total:
  assumes "[] \<notin> set (trebleClef m)" and "[] \<notin> set (bassClef m)"
  shows "\<exists>st'. GrandStaff_measure rv height key st m = Inr st'"
proof -
  from createClefNotes_total [OF assms(1)] obtain tm tx where
    "createClefNotes rv (sizes_of height) TREBLE (trebleClef m) (trebleMusic st) (trebleX st) key
       = Inr (tm, tx)" by blast
  moreover from createClefNotes_total [OF assms(2)] obtain bm bx where
    "createClefNotes rv (sizes_of height) BASS (bassClef m) (bassMusic st) (bassX st) key
       = Inr (bm, bx)" by blast
  ultimately show ?thesis by (simp add: GrandStaff_measure_def Let_def)
qed

lemma GrandStaff_measures_total:
  "\<forall>m\<in>set ms. [] \<notin> set (trebleClef m) \<and> [] \<notin> set (bassClef m) \<Longrightarrow>
     \<exists>st'. GrandStaff_measures rv height key ms st = Inr st'"
proof (induction ms arbitrary: st)
  case Nil
  then show ?case by simp
next
  case (Cons m ms)
  then have "[] \<notin> set (trebleClef m)" "[] \<notin> set (bassClef m)" by auto
  from GrandStaff_measure_total [OF this]
  obtain st1 where "GrandStaff_measure rv height key st m = Inr st1" by blast
  with Cons.IH [of st1] Cons.prems show ?case by auto
qed

text \<open>
  C4: with F sharp in force at the start of the measure, the notes F sharp, F natural,
  F natural, each a chord of its own, are displayed with no accidental, a natural, and no
  accidental.
\<close>

theorem C4_f_sharp_sequence:
  assumes "originalKeyLetters ''F'' = Some SHARP"
    and "getLabel n1 = \<lparr>letter = ''F'', accidental = SHARP\<rparr>"
    and "getLabel n2 = \<lparr>letter = ''F'', accidental = NATURAL\<rparr>"
    and "getLabel n3 = \<lparr>letter = ''F'', accidental = NATURAL\<rparr>"
  shows "\<exists>elems' x'.
     createClefNotes rv sizes clef [[n1], [n2], [n3]] elems startX originalKeyLetters
       = Inr (elems', x') \<and>
     chordGlyphs elems' = chordGlyphs elems @ [[], [NATURAL], []]"
proof -
  have "[] \<notin> set [[n1], [n2], [n3]]" by simp
  from createClefNotes_total [OF this] obtain elems' x' where
    r: "createClefNotes rv sizes clef [[n1], [n2], [n3]] elems startX originalKeyLetters
          = Inr (elems', x')"
    by blast
  have "trackAccidentals originalKeyLetters [[n1], [n2], [n3]] = [[], [NATURAL], []]"
    using assms by (simp add: displayedIn_def getDisplayedAccidentals_def)
  with createClefNotes_Inr [OF r] r show ?thesis by simp
qed

theorem C4_f_sharp_sequence_witness:
  "originalKeyLetters_of exampleKey ''F'' = Some SHARP \<and>
   getLabel (exampleNote ''F'' SHARP 4 66 QUARTER) = \<lparr>letter = ''F'', accidental = SHARP\<rparr> \<and>
   getLabel (exampleNote ''F'' NATURAL 4 65 QUARTER) = \<lparr>letter = ''F'', accidental = NATURAL\<rparr> \<and>
   map_sum id (\<lambda>(elems, x). chordGlyphs elems)
     (createClefNotes exampleRhythmicValue (sizes_of 200) TREBLE
        [[exampleNote ''F'' SHARP 4 66 QUARTER], [exampleNote ''F'' NATURAL 4 65 QUARTER],
         [exampleNote ''F'' NATURAL 4 65 QUARTER]] [] 40 (originalKeyLetters_of exampleKey))
     = Inr [[], [NATURAL], []] \<and>
   map_sum id snd
     (createClefNotes exampleRhythmicValue (sizes_of 200) TREBLE
        [[exampleNote ''F'' SHARP 4 66 QUARTER], [exampleNote ''F'' NATURAL 4 65 QUARTER],
         [exampleNote ''F'' NATURAL 4 65 QUARTER]] [] 40 (originalKeyLetters_of exampleKey))
     = Inr 190"
  (is "?key \<and> ?l1 \<and> ?l2 \<and> ?shown \<and> ?x")
proof -
  have key: ?key by (simp add: originalKeyLetters_of_def exampleKey_def)
  have l1: ?l1 and l2: ?l2 by (simp_all add: exampleNote_def)
  have x: ?x by code_simp
  from C4_f_sharp_sequence
    [where originalKeyLetters = "originalKeyLetters_of exampleKey"
       and ?n1.0 = "exampleNote ''F'' SHARP 4 66 QUARTER"
       and ?n2.0 = "exampleNote ''F'' NATURAL 4 65 QUARTER"
       and ?n3.0 = "exampleNote ''F'' NATURAL 4 65 QUARTER"
       and rv = exampleRhythmicValue and sizes = "sizes_of 200" and clef = TREBLE
       and elems = "[]" and startX = 40, OF key l1 l2 l2]
  have shown: ?shown by auto
  from key l1 l2 shown x show ?thesis by blast
qed

text \<open>
  C9: after each measure \<^verbatim>\<open>GrandStaff\<close> places the bar line at the maximum of the x that
  \<^verbatim>\<open>createClefNotes\<close> returns for the treble and for the bass clef, and sets both cursors to
  that position plus 50; so after any sequence of measures the two cursors are equal, there
  is one bar line per measure, and the cursors are 50 past the last bar line. The layout
  returns whenever no chord is empty.
\<close>

theorem C9_bar_lines_align:
  "(GrandStaff_measure rv height key st m = Inr st' \<longrightarrow>
      (\<exists>tm tx bm bx.
         createClefNotes rv (sizes_of height) TREBLE (trebleClef m) (trebleMusic st) (trebleX st) key
           = Inr (tm, tx) \<and>
         createClefNotes rv (sizes_of height) BASS (bassClef m) (bassMusic st) (bassX st) key
           = Inr (bm, bx) \<and>
         (\<exists>y h w. barLines st' = barLines st @ [SvgBarLineElement (max tx bx) y h w]) \<and>
         trebleX st' = max tx bx + 50 \<and> bassX st' = max tx bx + 50)) \<and>
   (GrandStaff rv height musicKey music = Inr final \<longrightarrow>
      trebleX final = bassX final \<and> length (barLines final) = length music \<and>
      (music \<noteq> [] \<longrightarrow> trebleX final = barX (last (barLines final)) + 50)) \<and>
   ((\<forall>m\<in>set music. [] \<notin> set (trebleClef m) \<and> [] \<notin> set (bassClef m)) \<longrightarrow>
      (\<exists>final. GrandStaff rv height musicKey music = Inr final))"
proof (intro conjI impI)
  assume "GrandStaff_measure rv height key st m = Inr st'"
  from GrandStaff_measure_Inr [OF this]
  show "\<exists>tm tx bm bx.
         createClefNotes rv (sizes_of height) TREBLE (trebleClef m) (trebleMusic st) (trebleX st) key
           = Inr (tm, tx) \<and>
         createClefNotes rv (sizes_of height) BASS (bassClef m) (bassMusic st) (bassX st) key
           = Inr (bm, bx) \<and>
         (\<exists>y h w. barLines st' = barLines st @ [SvgBarLineElement (max tx bx) y h w]) \<and>
         trebleX st' = max tx bx + 50 \<and> bassX st' = max tx bx + 50"
    by blast
next
  assume g: "GrandStaff rv height musicKey music = Inr final"
  then have r: "GrandStaff_measures rv height (originalKeyLetters_of musicKey) music
       \<lparr>trebleX = 40, bassX = 40, trebleMusic = [], bassMusic = [], barLines = []\<rparr> = Inr final"
    by (simp add: GrandStaff_def)
  from GrandStaff_measures_Inr [OF r]
  show "trebleX final = bassX final" by (cases "music = []") auto
  from GrandStaff_measures_Inr [OF r]
  show "length (barLines final) = length music" by simp
  {
    assume "music \<noteq> []"
    with GrandStaff_measures_Inr [OF r]
    show "trebleX final = barX (last (barLines final)) + 50" by simp
  }
next
  assume "\<forall>m\<in>set music. [] \<notin> set (trebleClef m) \<and> [] \<notin> set (bassClef m)"
  from GrandStaff_measures_total [OF this]
  show "\<exists>final. GrandStaff rv height musicKey music = Inr final"
    by (simp add: GrandStaff_def)
qed

theorem C9_bar_lines_align_witness:
  "list_all (\<lambda>m. [] \<notin> set (trebleClef m) \<and> [] \<notin> set (bassClef m))
     [\<lparr>trebleClef = [[exampleNote ''C'' NATURAL 4 60 QUARTER], [exampleNote ''E'' NATURAL 4 64 QUARTER]],
       bassClef = [[exampleNote ''C'' NATURAL 3 48 QUARTER]]\<rparr>,
      \<lparr>trebleClef = [[exampleNote ''G'' NATURAL 4 67 WHOLE]],
       bassClef = [[exampleNote ''E'' NATURAL 3 52 HALF]]\<rparr>] \<and>
   map_sum id (\<lambda>final. (trebleX final, bassX final, map barX (barLines final)))
     (GrandStaff exampleRhythmicValue 200 exampleKey
        [\<lparr>trebleClef = [[exampleNote ''C'' NATURAL 4 60 QUARTER], [exampleNote ''E'' NATURAL 4 64 QUARTER]],
          bassClef = [[exampleNote ''C'' NATURAL 3 48 QUARTER]]\<rparr>,
         \<lparr>trebleClef = [[exampleNote ''G'' NATURAL 4 67 WHOLE]],
          bassClef = [[exampleNote ''E'' NATURAL 3 52 HALF]]\<rparr>])
     = Inr (440, 440, [140, 390]) \<and>
   (\<exists>final.
      GrandStaff exampleRhythmicValue 200 exampleKey
        [\<lparr>trebleClef = [[exampleNote ''C'' NATURAL 4 60 QUARTER], [exampleNote ''E'' NATURAL 4 64 QUARTER]],
          bassClef = [[exampleNote ''C'' NATURAL 3 48 QUARTER]]\<rparr>,
         \<lparr>trebleClef = [[exampleNote ''G'' NATURAL 4 67 WHOLE]],
          bassClef = [[exampleNote ''E'' NATURAL 3 52 HALF]]\<rparr>] = Inr final \<and>
      trebleX final = bassX final \<and> length (barLines final) = 2 \<and>
      trebleX final = barX (last (barLines final)) + 50)"
  (is "?wf \<and> ?run \<and> ?aligned")
proof -
  have wf: ?wf by simp
  have run: ?run by code_simp
  note inst = C9_bar_lines_align
    [where music = "[\<lparr>trebleClef = [[exampleNote ''C'' NATURAL 4 60 QUARTER], [exampleNote ''E'' NATURAL 4 64 QUARTER]],
          bassClef = [[exampleNote ''C'' NATURAL 3 48 QUARTER]]\<rparr>,
         \<lparr>trebleClef = [[exampleNote ''G'' NATURAL 4 67 WHOLE]],
          bassClef = [[exampleNote ''E'' NATURAL 3 52 HALF]]\<rparr>]"
       and rv = exampleRhythmicValue and height = 200 and musicKey = exampleKey]
  from inst [THEN conjunct2, THEN conjunct2] wf
  obtain final where f: "GrandStaff exampleRhythmicValue 200 exampleKey
        [\<lparr>trebleClef = [[exampleNote ''C'' NATURAL 4 60 QUARTER], [exampleNote ''E'' NATURAL 4 64 QUARTER]],
          bassClef = [[exampleNote ''C'' NATURAL 3 48 QUARTER]]\<rparr>,
         \<lparr>trebleClef = [[exampleNote ''G'' NATURAL 4 67 WHOLE]],
          bassClef = [[exampleNote ''E'' NATURAL 3 52 HALF]]\<rparr>] = Inr final"
    by auto
  with inst [THEN conjunct2, THEN conjunct1, of final] have aligned: ?aligned by auto
  from wf run aligned show ?thesis by blast
qed

section \<open>Where rounding decides\<close>

lemma isEighth_examples:
  "isEighth exampleCMajor4 = Inr True" "isEighth exampleCMajor5 = Inr True"
  "isEighth exampleBDiminished4 = Inr True" "isEighth exampleCMinor5 = Inr True"
  by (simp_all add: isEighth_def exampleCMajor4_def exampleCMajor5_def exampleBDiminished4_def
      exampleCMinor5_def exampleNote_def)

lemma getAveragePitch_examples:
  "getAveragePitch exampleCMajor4 = 191 / 3" "getAveragePitch exampleCMajor5 = 227 / 3"
  "getAveragePitch exampleBDiminished4 = 74" "getAveragePitch exampleCMinor5 = 226 / 3"
  by (simp_all add: getAveragePitch_def average_def exampleCMajor4_def exampleCMajor5_def
      exampleBDiminished4_def exampleCMinor5_def exampleNote_def)

lemma average_double_examples:
  "average_double [60, 64, 67] = 8960286758622549 / 2 ^ 47"
  "average_double [72, 76, 79] = 5324568309443243 / 2 ^ 46"
  "average_double [71, 74, 77] = 74"
  "average_double [72, 75, 79] = 5301112061384021 / 2 ^ 46"
  by code_simp+

lemma getAveragePitch_double_examples:
  "getAveragePitch_double exampleCMajor4 = 8960286758622549 / 2 ^ 47"
  "getAveragePitch_double exampleCMajor5 = 5324568309443243 / 2 ^ 46"
  "getAveragePitch_double exampleBDiminished4 = 74"
  "getAveragePitch_double exampleCMinor5 = 5301112061384021 / 2 ^ 46"
  by (simp_all add: getAveragePitch_double_def exampleCMajor4_def exampleCMajor5_def
      exampleBDiminished4_def exampleCMinor5_def exampleNote_def average_double_examples)

lemma fl_distances:
  "fl (8960286758622549 / 2 ^ 47 - 5324568309443243 / 2 ^ 46) = - (1688849860263937 / 2 ^ 47)"
  "fl (5324568309443243 / 2 ^ 46 - 8960286758622549 / 2 ^ 47) = 1688849860263937 / 2 ^ 47"
  "fl (8960286758622549 / 2 ^ 47 - 74) = - (1454287379671723 / 2 ^ 47)"
  "fl (8960286758622549 / 2 ^ 47 - 5301112061384021 / 2 ^ 46) = - (1641937364145493 / 2 ^ 47)"
  "fl (74 - 5301112061384021 / 2 ^ 46) = - (93824992236885 / 2 ^ 46)"
  by code_simp+

lemma fl_reduce:
  "fl (0 + 8960286758622549 / 2 ^ 47) = 8960286758622549 / 2 ^ 47"
  "fl (8960286758622549 / 2 ^ 47 - 71) = - (1032074914605739 / 2 ^ 47)"
  "fl (- (1032074914605739 / 2 ^ 47) + 74) = 2345624805922133 / 2 ^ 45"
  "fl (2345624805922133 / 2 ^ 45 - 71) = - (152465612384939 / 2 ^ 45)"
  "fl (- (152465612384939 / 2 ^ 45) + 5301112061384021 / 2 ^ 46) = 4996180836614143 / 2 ^ 46"
  "fl (4996180836614143 / 2 ^ 46 - 71) = - (1 / 2 ^ 46)"
  by code_simp+

lemma distance_double_examples:
  "\<bar>fl (getAveragePitch_double exampleCMajor4 - getAveragePitch_double exampleCMajor5)\<bar>
     = 12 + 1 / 2 ^ 47"
  "\<bar>fl (getAveragePitch_double exampleCMajor5 - getAveragePitch_double exampleCMajor4)\<bar>
     = 12 + 1 / 2 ^ 47"
  "\<bar>fl (getAveragePitch_double exampleCMajor4 - getAveragePitch_double exampleBDiminished4)\<bar>
     = 1454287379671723 / 2 ^ 47"
  "\<bar>fl (getAveragePitch_double exampleCMajor4 - getAveragePitch_double exampleCMinor5)\<bar>
     = 1641937364145493 / 2 ^ 47"
  "\<bar>fl (getAveragePitch_double exampleBDiminished4 - getAveragePitch_double exampleCMinor5)\<bar>
     = 93824992236885 / 2 ^ 46"
  unfolding getAveragePitch_double_examples fl_distances by simp_all

lemma groupBeamGroups_double_octave:
  "groupBeamGroups_double
     [exampleCMajor4, exampleCMajor5, exampleCMajor4, exampleCMajor5, exampleCMajor4]
   = Inr [[exampleCMajor4], [exampleCMajor5], [exampleCMajor4], [exampleCMajor5], [exampleCMajor4]]"
  by (simp add: groupBeamGroups_double_def groupBeamGroups_step_double_def Let_def Math_max_le
      isEighth_examples distance_double_examples)

lemma groupBeamGroups_double_balanced:
  "groupBeamGroups_double [exampleCMajor4, exampleBDiminished4, exampleCMinor5]
   = Inr [[exampleCMajor4, exampleBDiminished4, exampleCMinor5]]"
  by (simp add: groupBeamGroups_double_def groupBeamGroups_step_double_def Let_def Math_max_le
      isEighth_examples distance_double_examples)

lemma middlePitchDelta_double_balanced:
  "middlePitchDelta_double [exampleCMajor4, exampleBDiminished4, exampleCMinor5] TREBLE
     = - (1 / 2 ^ 46)"
proof -
  have m: "map (\<lambda>chord. average_double (map pitch chord))
          [exampleCMajor4, exampleBDiminished4, exampleCMinor5]
        = [8960286758622549 / 2 ^ 47, 74, 5301112061384021 / 2 ^ 46]"
    by (simp add: getAveragePitch_double_examples [unfolded getAveragePitch_double_def])
  have "fold (\<lambda>pitch delta. fl (fl (delta + pitch) - 71))
          [8960286758622549 / 2 ^ 47, 74, 5301112061384021 / 2 ^ 46] 0
        = fl (fl (fl (fl (fl (fl (0 + 8960286758622549 / 2 ^ 47) - 71) + 74) - 71)
                + 5301112061384021 / 2 ^ 46) - 71)"
    by (simp only: fold_Cons fold_Nil o_apply id_apply)
  also have "\<dots> = - (1 / 2 ^ 46)"
    unfolding fl_reduce by (rule refl)
  finally show ?thesis
    unfolding middlePitchDelta_double_def Let_def m by simp
qed

text \<open>
  C1: the measure of five EIGHTH triads C-E-G at octaves 4, 5, 4, 5, 4. Their average
  pitches 191/3 and 227/3 are exactly 12 apart, so in exact arithmetic the groups are the
  first four chords and the fifth. In double arithmetic the averages are
  63.666666666666664 and 75.66666666666667, their distance is 12 + 2^-47, and
  \<^verbatim>\<open>groupBeamGroups\<close> returns five groups of one chord.
\<close>

theorem C1_octave_apart_triads:
  "isEighth exampleCMajor4 = Inr True \<and> isEighth exampleCMajor5 = Inr True \<and>
   \<bar>getAveragePitch exampleCMajor5 - getAveragePitch exampleCMajor4\<bar> = 12 \<and>
   groupBeamGroups
     [exampleCMajor4, exampleCMajor5, exampleCMajor4, exampleCMajor5, exampleCMajor4]
   = Inr [[exampleCMajor4, exampleCMajor5, exampleCMajor4, exampleCMajor5], [exampleCMajor4]] \<and>
   getAveragePitch_double exampleCMajor4 = 8960286758622549 / 2 ^ 47 \<and>
   getAveragePitch_double exampleCMajor5 = 5324568309443243 / 2 ^ 46 \<and>
   \<bar>fl (getAveragePitch_double exampleCMajor4 - getAveragePitch_double exampleCMajor5)\<bar>
     = 12 + 1 / 2 ^ 47 \<and>
   groupBeamGroups_double
     [exampleCMajor4, exampleCMajor5, exampleCMajor4, exampleCMajor5, exampleCMajor4]
   = Inr [[exampleCMajor4], [exampleCMajor5], [exampleCMajor4], [exampleCMajor5], [exampleCMajor4]]"
proof -
  have "groupBeamGroups
     [exampleCMajor4, exampleCMajor5, exampleCMajor4, exampleCMajor5, exampleCMajor4]
   = Inr [[exampleCMajor4, exampleCMajor5, exampleCMajor4, exampleCMajor5], [exampleCMajor4]]"
    by (simp add: groupBeamGroups_def groupBeamGroups_step_def Math_max_le isEighth_examples
        getAveragePitch_examples)
  moreover have "\<bar>getAveragePitch exampleCMajor5 - getAveragePitch exampleCMajor4\<bar> = 12"
    by (simp add: getAveragePitch_examples)
  moreover note isEighth_examples(1) isEighth_examples(2) getAveragePitch_double_examples(1)
    getAveragePitch_double_examples(2) distance_double_examples(1) groupBeamGroups_double_octave
  ultimately show ?thesis by blast
qed

text \<open>
  C2: the three EIGHTH triads C-E-G, B-D-F and C-E flat-G in the treble clef, one beam
  group. The sum of their average pitches less 71 is exactly 0, so the beam is below by
  the sum's sign; the sum that \<^verbatim>\<open>getBeamLine\<close> reduces in double arithmetic is -2^-46,
  so \<^verbatim>\<open>shouldBeAbove\<close> is true and the line it returns is above.
\<close>

theorem C2_balanced_triads:
  "groupBeamGroups_double [exampleCMajor4, exampleBDiminished4, exampleCMinor5]
     = Inr [[exampleCMajor4, exampleBDiminished4, exampleCMinor5]] \<and>
   sum_list (map (\<lambda>chord. getAveragePitch chord - 71)
     [exampleCMajor4, exampleBDiminished4, exampleCMinor5]) = 0 \<and>
   \<not> shouldBeAbove [exampleCMajor4, exampleBDiminished4, exampleCMinor5] TREBLE \<and>
   middlePitchDelta_double [exampleCMajor4, exampleBDiminished4, exampleCMinor5] TREBLE
     = - (1 / 2 ^ 46) \<and>
   shouldBeAbove_double [exampleCMajor4, exampleBDiminished4, exampleCMinor5] TREBLE"
  by (simp add: groupBeamGroups_double_balanced shouldBeAbove_sum getAveragePitch_examples
      shouldBeAbove_double_def middlePitchDelta_double_balanced)

end
